theory Spec2Isabelle
  imports Main
begin

section \<open>Go library functions used by the solver code\<close>

text \<open>
  The solver code works on Go strings (byte sequences), modelled as \<^typ>\<open>string\<close>.
  The functions of this section are the parts of Go's \<open>strings\<close>, \<open>path\<close> and \<open>fmt\<close>
  packages that the solver calls, written after the library's own algorithms.
\<close>

subsection \<open>Package strings\<close>

text \<open>\<open>strings.HasPrefix(s, prefix)\<close>: \<open>len(s) >= len(prefix) && s[:len(prefix)] == prefix\<close>.\<close>

definition HasPrefix :: "string \<Rightarrow> string \<Rightarrow> bool" where
  "HasPrefix s pre = (length s \<ge> length pre \<and> take (length pre) s = pre)"

text \<open>
  \<open>strings.Replace(s, old, new, 1)\<close>: the first occurrence of \<open>old\<close> in \<open>s\<close>, scanning from
  the left, is replaced by \<open>new\<close>; without an occurrence \<open>s\<close> is returned as it is. An empty
  \<open>old\<close> matches at the start of the string.
\<close>

fun Replace1 :: "string \<Rightarrow> string \<Rightarrow> string \<Rightarrow> string" where
  "Replace1 [] old new = (if old = [] then new else [])"
| "Replace1 (c # cs) old new =
     (if HasPrefix (c # cs) old then new @ drop (length old) (c # cs)
      else c # Replace1 cs old new)"

text \<open>
  \<open>strings.Split(s, sep)\<close> for a separator of one byte: the pieces between the occurrences
  of the separator, one more piece than there are separators (so never an empty list).
\<close>

fun Split :: "string \<Rightarrow> char \<Rightarrow> string list" where
  "Split [] sep = [[]]"
| "Split (c # cs) sep =
     (if c = sep then [] # Split cs sep
      else (case Split cs sep of
              [] \<Rightarrow> [[c]]
            | piece # pieces \<Rightarrow> (c # piece) # pieces))"

subsection \<open>Package path\<close>

text \<open>
  The inner loop of \<open>path.Clean\<close> for a \<open>..\<close> element: \<open>out.w--\<close>, then
  \<open>for out.w > dotdot && out.index(out.w) != '/' { out.w-- }\<close>. The argument \<open>w\<close> is the
  write index after the first decrement; the result is the final write index.
\<close>

function backtrack :: "string \<Rightarrow> nat \<Rightarrow> nat \<Rightarrow> nat" where
  "backtrack out dotdot w =
     (if w > dotdot \<and> out ! w \<noteq> CHR ''/'' then backtrack out dotdot (w - 1) else w)"
  by pat_completeness auto
termination
  by (relation "measure (\<lambda>(out, dotdot, w). w)") auto

declare backtrack.simps [simp del]

text \<open>
  The conditions of the \<open>switch\<close> in the main loop of \<open>path.Clean\<close>, on the unread rest
  \<open>path[r:]\<close> of the path: \<open>r+1 == n || path[r+1] == '/'\<close> on the rest after a dot, the
  test for a \<open>.\<close> element and the test for a \<open>..\<close> element.
\<close>

fun elemEnds :: "string \<Rightarrow> bool" where
  "elemEnds [] = True"
| "elemEnds (c # cs) = (c = CHR ''/'')"

fun isDot :: "string \<Rightarrow> bool" where
  "isDot (c # cs) = (c = CHR ''.'' \<and> elemEnds cs)"
| "isDot [] = False"

fun isDotDot :: "string \<Rightarrow> bool" where
  "isDotDot (c # d # ds) = (c = CHR ''.'' \<and> d = CHR ''.'' \<and> elemEnds ds)"
| "isDotDot cs = False"

text \<open>
  One round of the main loop of \<open>path.Clean\<close>, on a non-empty rest \<open>p\<close> of the path. The
  arguments are the flag \<open>rooted\<close>, the output buffer written so far (\<open>out.w\<close> is its length)
  and the index \<open>dotdot\<close>; the result is the new buffer, the new \<open>dotdot\<close> and the new rest.
  The four cases are the four cases of the library's \<open>switch\<close>, in its order: an empty
  element, a \<open>.\<close> element, a \<open>..\<close> element and a real element.
\<close>

definition cleanStep :: "bool \<Rightarrow> string \<Rightarrow> nat \<Rightarrow> string \<Rightarrow> string \<times> nat \<times> string" where
  "cleanStep rooted out dotdot p =
     (if take 1 p = ''/'' then (out, dotdot, drop 1 p)
      else if isDot p then (out, dotdot, drop 1 p)
      else if isDotDot p then
        (if length out > dotdot then
           (take (backtrack out dotdot (length out - 1)) out, dotdot, drop 2 p)
         else if \<not> rooted then
           (let out' = (if length out > 0 then out @ ''/'' else out) @ ''..''
            in (out', length out', drop 2 p))
         else (out, dotdot, drop 2 p))
      else
        (let out' = (if (rooted \<and> length out \<noteq> 1) \<or> (\<not> rooted \<and> length out \<noteq> 0)
                     then out @ ''/'' else out)
         in (out' @ takeWhile (\<lambda>b. b \<noteq> CHR ''/'') p, dotdot,
             dropWhile (\<lambda>b. b \<noteq> CHR ''/'') p)))"

lemma cleanStep_shorter:
  assumes "p \<noteq> []"
  shows "length (snd (snd (cleanStep rooted out dotdot p))) < length p"
proof -
  obtain c cs where p: "p = c # cs" using assms by (cases p) auto
  show ?thesis
  proof (cases "c = CHR ''/''")
    case True
    then show ?thesis by (simp add: cleanStep_def p)
  next
    case False
    have "length (dropWhile (\<lambda>b. b \<noteq> CHR ''/'') cs) \<le> length cs"
      by (rule length_dropWhile_le)
    with False show ?thesis by (auto simp add: cleanStep_def p Let_def)
  qed
qed

text \<open>The main loop of \<open>path.Clean\<close>: \<open>for r < n { switch ... }\<close>.\<close>

function cleanLoop :: "bool \<Rightarrow> string \<Rightarrow> nat \<Rightarrow> string \<Rightarrow> string" where
  "cleanLoop rooted out dotdot p =
     (if p = [] then out
      else (case cleanStep rooted out dotdot p of
              (out', dotdot', p') \<Rightarrow> cleanLoop rooted out' dotdot' p'))"
  by pat_completeness auto
termination
  by (relation "measure (\<lambda>(rooted, out, dotdot, p). length p)")
     (auto simp: case_prod_beta cleanStep_shorter)

declare cleanLoop.simps [simp del]

text \<open>
  \<open>path.Clean(path)\<close>: the empty path is \<open>.\<close>; a rooted path starts the buffer with the
  slash and reads from index 1; an empty result is turned into \<open>.\<close>.
\<close>

definition Clean :: "string \<Rightarrow> string" where
  "Clean p =
     (if p = [] then ''.''
      else
        (let rooted = (take 1 p = ''/'');
             out = (if rooted then cleanLoop True ''/'' 1 (drop 1 p)
                    else cleanLoop False [] 0 p)
         in if out = [] then ''.'' else out))"

text \<open>\<open>strings.LastIndex(path, "/")\<close>, with \<open>-1\<close> when there is no slash.\<close>

fun LastIndexSlash :: "string \<Rightarrow> int" where
  "LastIndexSlash [] = -1"
| "LastIndexSlash (c # cs) =
     (let i = LastIndexSlash cs
      in if i \<ge> 0 then i + 1 else if c = CHR ''/'' then 0 else -1)"

text \<open>\<open>path.Split(path)\<close>: \<open>path[:i+1], path[i+1:]\<close> for the index \<open>i\<close> of the last slash.\<close>

definition pathSplit :: "string \<Rightarrow> string \<times> string" where
  "pathSplit p = (let i = LastIndexSlash p in (take (nat (i + 1)) p, drop (nat (i + 1)) p))"

text \<open>\<open>path.Dir(path)\<close>: the directory part of \<open>path.Split\<close>, cleaned.\<close>

definition Dir :: "string \<Rightarrow> string" where
  "Dir p = Clean (fst (pathSplit p))"

text \<open>
  \<open>path.Join(elem...)\<close>: the non-empty elements joined by slashes and cleaned; the empty
  string when every element is empty.
\<close>

fun joinBuf :: "string \<Rightarrow> string list \<Rightarrow> string" where
  "joinBuf buf [] = buf"
| "joinBuf buf (e # es) =
     (if length buf > 0 \<or> e \<noteq> [] then
        joinBuf ((if length buf > 0 then buf @ ''/'' else buf) @ e) es
      else joinBuf buf es)"

definition Join :: "string list \<Rightarrow> string" where
  "Join elems = (if sum_list (map length elems) = 0 then [] else Clean (joinBuf [] elems))"

subsection \<open>Package fmt\<close>

text \<open>
  The verb \<open>%v\<close> on a non-negative \<open>int\<close>: its decimal digits. The label index below is
  the only integer that is formatted; it starts at 0, grows by one per entry at most and
  is bounded by the length of a slice, so it never wraps and is modelled as a \<^typ>\<open>nat\<close>.
\<close>

definition digitChar :: "nat \<Rightarrow> char" where
  "digitChar d = ''0123456789'' ! d"

fun formatNat :: "nat \<Rightarrow> string" where
  "formatNat n = (if n < 10 then [digitChar n] else formatNat (n div 10) @ [digitChar (n mod 10)])"

declare formatNat.simps [simp del]

section \<open>The solver code\<close>

subsection \<open>Errors and panics\<close>

text \<open>
  A Go function of the solver either returns normally, returns an \<open>error\<close> (modelled by
  its message), or panics at run time: on an index out of range or on the dereference of a
  nil pointer. A result is a value of \<open>failure + 'a\<close>, with \<open>Inl\<close> for the two ways to fail.
\<close>

datatype panic = IndexOutOfRange | NilDereference

datatype failure = Failed string | Panicked panic

text \<open>
  \<open>fmt.Errorf(context + "%v", err)\<close> in a function that received the error \<open>err\<close> from a
  call: the message is put after the context. A panic inside the call is not an error
  value; it passes through every caller unchanged.
\<close>

definition wrapError :: "string \<Rightarrow> failure \<Rightarrow> failure" where
  "wrapError context err =
     (case err of Failed msg \<Rightarrow> Failed (context @ msg) | Panicked p \<Rightarrow> Panicked p)"

text \<open>Indexing a slice, \<open>xs[i]\<close>: a panic when the index is out of range.\<close>

definition index :: "'a list \<Rightarrow> nat \<Rightarrow> failure + 'a" where
  "index xs i = (if i < length xs then Inr (xs ! i) else Inl (Panicked IndexOutOfRange))"

subsection \<open>Constants and records\<close>

text \<open>
  The package constants that the solver code reads are declared in a file that is not
  among the sources. They are parameters of the model: every function that reads one takes
  the table of constants as its first argument, and every theorem holds for all values.
\<close>

record constants =
  CBFS_URI_PREFIX :: string
  TRAINING_INDEX :: string
  TESTING_INDEX :: string
  TRAINING_DIR :: string
  TESTING_DIR :: string

text \<open>\<open>configuration.go\<close>: the queue type and the configuration with its default values.\<close>

datatype QueueType = Nsq | Goroutine

record Configuration =
  DbUrl :: string
  CbfsUrl :: string
  NsqLookupdUrl :: string
  NsqdUrl :: string
  NsqdTopic :: string
  WorkDirectory :: string
  QueueType :: QueueType
  NumCbfsClusterNodes :: int

definition NewDefaultConfiguration :: Configuration where
  "NewDefaultConfiguration =
     \<lparr>DbUrl = ''http://localhost:4985/elastic-thought'',
      CbfsUrl = ''http://localhost:8484'',
      NsqLookupdUrl = ''127.0.0.1:4161'',
      NsqdUrl = ''127.0.0.1:4150'',
      NsqdTopic = ''elastic-thought'',
      WorkDirectory = ''/tmp/elastic-thought'',
      QueueType = Goroutine,
      NumCbfsClusterNodes = 1\<rparr>"

text \<open>
  The solver. Of the embedded document \<open>ElasticThoughtDoc\<close> (declared outside the sources)
  the code reads the field \<open>Id\<close> alone.
\<close>

record Solver =
  Id :: string
  DatasetId :: string
  SpecificationUrl :: string
  SpecificationNetUrl :: string
  Configuration :: Configuration

subsection \<open>The configuration messages\<close>

text \<open>
  The messages of the generated package \<open>caffe\<close>, which is not among the sources, as far
  as the solver code uses them. A field that the code reads through a pointer
  (\<open>*layerParam.Type\<close>, \<open>*includedPhase.Phase\<close>), assigns with \<open>proto.String\<close> or reaches
  through a message pointer (\<open>layerParam.ImageDataParam.Source\<close>) is an option, \<open>None\<close> for
  the nil pointer of a field that the configuration text leaves out. The fields that the
  code never names are the component \<open>_rest\<close> of each record, of an arbitrary type \<open>'o\<close>.
  Of the layer types, the code names \<open>IMAGE_DATA\<close> and \<open>DATA\<close>.
\<close>

datatype Phase = Phase_TRAIN | Phase_TEST

datatype LayerType =
  V1LayerParameter_IMAGE_DATA | V1LayerParameter_DATA | V1LayerParameter_other int

record 'o NetStateRule =
  Phase :: "Phase option"
  NetStateRule_rest :: 'o

record 'o ImageDataParameter =
  ImageData_Source :: "string option"
  ImageDataParameter_rest :: 'o

record 'o DataParameter =
  Data_Source :: "string option"
  DataParameter_rest :: 'o

record 'o V1LayerParameter =
  Type :: "LayerType option"
  Include :: "'o NetStateRule list"
  ImageDataParam :: "'o ImageDataParameter option"
  DataParam :: "'o DataParameter option"
  V1LayerParameter_rest :: 'o

record 'o NetParameter =
  Layers :: "'o V1LayerParameter list"
  NetParameter_rest :: 'o

record 'o SolverParameter =
  Net :: "string option"
  SnapshotPrefix :: "string option"
  SolverParameter_rest :: 'o

subsection \<open>Rewriting the network configuration\<close>

text \<open>
  The loop of \<open>isTrainingPhase\<close> and of \<open>isTestingPhase\<close> over \<open>layer.Include\<close>, for the
  phase that is looked for: \<open>*includedPhase.Phase\<close> panics on a rule without a phase.
\<close>

fun phaseLoop :: "Phase \<Rightarrow> 'o NetStateRule list \<Rightarrow> failure + bool" where
  "phaseLoop ph [] = Inr False"
| "phaseLoop ph (includedPhase # rest) =
     (case Phase includedPhase of
        None \<Rightarrow> Inl (Panicked NilDereference)
      | Some p \<Rightarrow> if p = ph then Inr True else phaseLoop ph rest)"

definition isTrainingPhase :: "'o V1LayerParameter \<Rightarrow> failure + bool" where
  "isTrainingPhase layer = phaseLoop Phase_TRAIN (Include layer)"

definition isTestingPhase :: "'o V1LayerParameter \<Rightarrow> failure + bool" where
  "isTestingPhase layer = phaseLoop Phase_TEST (Include layer)"

text \<open>
  The assignments \<open>layerParam.ImageDataParam.Source = proto.String(v)\<close> and
  \<open>layerParam.DataParam.Source = proto.String(v)\<close>: a panic when the layer has no such
  parameter message.
\<close>

definition setImageDataSource ::
  "string \<Rightarrow> 'o V1LayerParameter \<Rightarrow> failure + 'o V1LayerParameter" where
  "setImageDataSource v layerParam =
     (case ImageDataParam layerParam of
        None \<Rightarrow> Inl (Panicked NilDereference)
      | Some p \<Rightarrow> Inr (layerParam\<lparr>ImageDataParam := Some (p\<lparr>ImageData_Source := Some v\<rparr>)\<rparr>))"

definition setDataSource ::
  "string \<Rightarrow> 'o V1LayerParameter \<Rightarrow> failure + 'o V1LayerParameter" where
  "setDataSource v layerParam =
     (case DataParam layerParam of
        None \<Rightarrow> Inl (Panicked NilDereference)
      | Some p \<Rightarrow> Inr (layerParam\<lparr>DataParam := Some (p\<lparr>Data_Source := Some v\<rparr>)\<rparr>))"

text \<open>
  The body of the loop of \<open>modifySolverNetSpec\<close> for one layer: the \<open>switch\<close> on
  \<open>*layerParam.Type\<close> with its two cases, each with the training test and assignment first
  and the testing test and assignment second.
\<close>

definition modifyLayer :: "constants \<Rightarrow> 'o V1LayerParameter \<Rightarrow> failure + 'o V1LayerParameter" where
  "modifyLayer K layerParam =
     (case Type layerParam of
        None \<Rightarrow> Inl (Panicked NilDereference)
      | Some V1LayerParameter_IMAGE_DATA \<Rightarrow>
          (case isTrainingPhase layerParam of
             Inl e \<Rightarrow> Inl e
           | Inr training \<Rightarrow>
               (case (if training then setImageDataSource (TRAINING_INDEX K) layerParam
                      else Inr layerParam) of
                  Inl e \<Rightarrow> Inl e
                | Inr layerParam1 \<Rightarrow>
                    (case isTestingPhase layerParam1 of
                       Inl e \<Rightarrow> Inl e
                     | Inr testing \<Rightarrow>
                         if testing then setImageDataSource (TESTING_INDEX K) layerParam1
                         else Inr layerParam1)))
      | Some V1LayerParameter_DATA \<Rightarrow>
          (case isTrainingPhase layerParam of
             Inl e \<Rightarrow> Inl e
           | Inr training \<Rightarrow>
               (case (if training then setDataSource (TRAINING_DIR K) layerParam
                      else Inr layerParam) of
                  Inl e \<Rightarrow> Inl e
                | Inr layerParam1 \<Rightarrow>
                    (case isTestingPhase layerParam1 of
                       Inl e \<Rightarrow> Inl e
                     | Inr testing \<Rightarrow>
                         if testing then setDataSource (TESTING_DIR K) layerParam1
                         else Inr layerParam1)))
      | Some (V1LayerParameter_other n) \<Rightarrow> Inr layerParam)"

text \<open>The loop of \<open>modifySolverNetSpec\<close> over \<open>netParam.Layers\<close>, in order.\<close>

fun modifyLayers :: "constants \<Rightarrow> 'o V1LayerParameter list \<Rightarrow> failure + 'o V1LayerParameter list" where
  "modifyLayers K [] = Inr []"
| "modifyLayers K (layerParam # rest) =
     (case modifyLayer K layerParam of
        Inl e \<Rightarrow> Inl e
      | Inr layerParam' \<Rightarrow>
          (case modifyLayers K rest of
             Inl e \<Rightarrow> Inl e
           | Inr rest' \<Rightarrow> Inr (layerParam' # rest')))"

text \<open>
  \<open>modifySolverNetSpec\<close>. The text codec of the protocol-buffer library
  (\<open>proto.UnmarshalText\<close> into a \<open>caffe.NetParameter\<close>, \<open>proto.MarshalText\<close>) is a pair of
  parameters.
\<close>

definition modifySolverNetSpec ::
  "constants \<Rightarrow> (string \<Rightarrow> failure + 'o NetParameter) \<Rightarrow> ('o NetParameter \<Rightarrow> failure + string)
     \<Rightarrow> string \<Rightarrow> failure + string" where
  "modifySolverNetSpec K UnmarshalText MarshalText sourceBytes =
     (case UnmarshalText sourceBytes of
        Inl err \<Rightarrow> Inl err
      | Inr netParam \<Rightarrow>
          (case modifyLayers K (Layers netParam) of
             Inl e \<Rightarrow> Inl e
           | Inr layers \<Rightarrow>
               (case MarshalText (netParam\<lparr>Layers := layers\<rparr>) of
                  Inl err \<Rightarrow> Inl err
                | Inr buf \<Rightarrow> Inr buf)))"

subsection \<open>Rewriting the solver configuration\<close>

definition modifySolverSpec ::
  "(string \<Rightarrow> failure + 'o SolverParameter) \<Rightarrow> ('o SolverParameter \<Rightarrow> failure + string)
     \<Rightarrow> string \<Rightarrow> failure + string" where
  "modifySolverSpec UnmarshalText MarshalText source =
     (case UnmarshalText source of
        Inl err \<Rightarrow> Inl err
      | Inr solverParam \<Rightarrow>
          (case MarshalText (solverParam\<lparr>Net := Some ''solver-net.prototxt'',
                                         SnapshotPrefix := Some ''snapshot''\<rparr>) of
             Inl err \<Rightarrow> Inl err
           | Inr buf \<Rightarrow> Inr buf))"

subsection \<open>Downloading the specifications to the blob store\<close>

text \<open>
  What \<open>DownloadSpecToCbfs\<close> calls outside the solver code: \<open>getUrlContent\<close> (a function of
  the package outside the sources: the content behind a URL, or an error), the text codec
  of the two configuration messages, \<open>Put\<close> of the blob store client (source name,
  destination path, content, content type) on a blob store of type \<open>'bs\<close>, and \<open>Edit\<close> and
  \<open>Retrieve\<close> of the database on a database of type \<open>'db\<close>. A call that changes the store or
  the database returns the new one next to its result.
\<close>

record ('o, 'db, 'bs) services =
  getUrlContent :: "string \<Rightarrow> failure + string"
  UnmarshalSolverText :: "string \<Rightarrow> failure + 'o SolverParameter"
  MarshalSolverText :: "'o SolverParameter \<Rightarrow> failure + string"
  UnmarshalNetText :: "string \<Rightarrow> failure + 'o NetParameter"
  MarshalNetText :: "'o NetParameter \<Rightarrow> failure + string"
  cbfsPut :: "'bs \<Rightarrow> string \<Rightarrow> string \<Rightarrow> string \<Rightarrow> string \<Rightarrow> (failure + unit) \<times> 'bs"
  dbEdit :: "'db \<Rightarrow> Solver \<Rightarrow> (failure + string) \<times> 'db"
  dbRetrieve :: "'db \<Rightarrow> string \<Rightarrow> failure + Solver"

definition getModifiedSolverSpec :: "('o, 'db, 'bs) services \<Rightarrow> Solver \<Rightarrow> failure + string" where
  "getModifiedSolverSpec E s =
     (case getUrlContent E (SpecificationUrl s) of
        Inl err \<Rightarrow> Inl (wrapError (''Error getting data: '' @ SpecificationUrl s @ ''.  '') err)
      | Inr content \<Rightarrow>
          (case modifySolverSpec (UnmarshalSolverText E) (MarshalSolverText E) content of
             Inl err \<Rightarrow> Inl (wrapError (''Error modifying: '' @ content @ ''.  '') err)
           | Inr modified \<Rightarrow> Inr modified))"

definition getModifiedSolverNetSpec ::
  "constants \<Rightarrow> ('o, 'db, 'bs) services \<Rightarrow> Solver \<Rightarrow> failure + string" where
  "getModifiedSolverNetSpec K E s =
     (case getUrlContent E (SpecificationNetUrl s) of
        Inl err \<Rightarrow> Inl (wrapError (''Error getting data: '' @ SpecificationNetUrl s @ ''.  '') err)
      | Inr content \<Rightarrow>
          (case modifySolverNetSpec K (UnmarshalNetText E) (MarshalNetText E) content of
             Inl err \<Rightarrow> Inl (wrapError (''Error modifying: '' @ content @ ''.  '') err)
           | Inr modified \<Rightarrow> Inr modified))"

definition saveToCbfs ::
  "('o, 'db, 'bs) services \<Rightarrow> 'bs \<Rightarrow> string \<Rightarrow> string \<Rightarrow> (failure + unit) \<times> 'bs" where
  "saveToCbfs E cbfs destPath reader =
     (case cbfsPut E cbfs [] destPath reader ''text/plain'' of
        (Inl err, cbfs') \<Rightarrow>
          (Inl (wrapError (''Error writing '' @ destPath @ '' to cbfs: '') err), cbfs')
      | (Inr u, cbfs') \<Rightarrow> (Inr (), cbfs'))"

definition Save :: "('o, 'db, 'bs) services \<Rightarrow> 'db \<Rightarrow> Solver \<Rightarrow> (failure + Solver) \<times> 'db" where
  "Save E db s =
     (case dbEdit E db s of
        (Inl err, db') \<Rightarrow> (Inl err, db')
      | (Inr revision, db') \<Rightarrow>
          (case dbRetrieve E db' (Id s) of
             Inl err \<Rightarrow> (Inl err, db')
           | Inr solver \<Rightarrow> (Inr solver, db')))"

text \<open>
  \<open>DownloadSpecToCbfs\<close>, on the database and the blob store it is given; the result is
  the solver or the failure, with the database and the blob store as the call leaves them.
  The receiver is a copy of the solver, so the two assignments to its fields are seen by
  the later steps of the call alone.
\<close>

definition DownloadSpecToCbfs ::
  "constants \<Rightarrow> ('o, 'db, 'bs) services \<Rightarrow> Solver \<Rightarrow> 'db \<Rightarrow> 'bs
     \<Rightarrow> (failure + Solver) \<times> 'db \<times> 'bs" where
  "DownloadSpecToCbfs K E s db cbfs =
     (case getModifiedSolverSpec E s of
        Inl err \<Rightarrow> (Inl err, db, cbfs)
      | Inr solverSpecBytes \<Rightarrow>
          (case saveToCbfs E cbfs (Id s @ ''/solver.prototxt'') solverSpecBytes of
             (Inl err, cbfs1) \<Rightarrow> (Inl err, db, cbfs1)
           | (Inr u, cbfs1) \<Rightarrow>
               (let s1 = s\<lparr>SpecificationUrl := CBFS_URI_PREFIX K @ (Id s @ ''/solver.prototxt'')\<rparr>
                in case getModifiedSolverNetSpec K E s1 of
                     Inl err \<Rightarrow> (Inl err, db, cbfs1)
                   | Inr solverSpecNetBytes \<Rightarrow>
                       (case saveToCbfs E cbfs1 (Id s1 @ ''/solver-net.prototxt'')
                               solverSpecNetBytes of
                          (Inl err, cbfs2) \<Rightarrow> (Inl err, db, cbfs2)
                        | (Inr u, cbfs2) \<Rightarrow>
                            (let s2 = s1\<lparr>SpecificationNetUrl :=
                                           CBFS_URI_PREFIX K @ (Id s1 @ ''/solver-net.prototxt'')\<rparr>
                             in case Save E db s2 of
                                  (Inl err, db') \<Rightarrow> (Inl err, db', cbfs2)
                                | (Inr solver, db') \<Rightarrow> (Inr solver, db', cbfs2))))))"

subsection \<open>References into the blob store\<close>

definition SpecificationUrlPath :: "constants \<Rightarrow> Solver \<Rightarrow> failure + string" where
  "SpecificationUrlPath K s =
     (let specUrl = SpecificationUrl s
      in if \<not> HasPrefix specUrl (CBFS_URI_PREFIX K)
         then Inl (Failed (''Expected '' @ specUrl @ '' to start with '' @ CBFS_URI_PREFIX K))
         else Inr (Replace1 specUrl (CBFS_URI_PREFIX K) []))"

definition SpecificationNetUrlPath :: "constants \<Rightarrow> Solver \<Rightarrow> failure + string" where
  "SpecificationNetUrlPath K s =
     (let specUrl = SpecificationNetUrl s
      in if \<not> HasPrefix specUrl (CBFS_URI_PREFIX K)
         then Inl (Failed (''Expected '' @ specUrl @ '' to start with '' @ CBFS_URI_PREFIX K))
         else Inr (Replace1 specUrl (CBFS_URI_PREFIX K) []))"

text \<open>
  The reference for a path of the blob store, as \<open>DownloadSpecToCbfs\<close> builds it twice:
  \<open>fmt.Sprintf("%v%v", CBFS_URI_PREFIX, destPath)\<close>.
\<close>

definition cbfsUrl :: "constants \<Rightarrow> string \<Rightarrow> string" where
  "cbfsUrl K destPath = CBFS_URI_PREFIX K @ destPath"

subsection \<open>Labelling a table of contents\<close>


text \<open>
  Modelled from the spec: \<open>containsString\<close> is called by \<open>addLabelsToToc\<close> and is not
  among the given sources; the specification words the call as "append \<open>dir\<close> to the
  seen-directories list if not already present", so it is membership in the list.
\<close>

definition containsString :: "string list \<Rightarrow> string \<Rightarrow> bool" where
  "containsString values v = (v \<in> set values)"

text \<open>
  The loop of \<open>addLabelsToToc\<close> over the table of contents, with the four variables of the
  function as arguments: \<open>currentDirectory\<close>, \<open>labelIndex\<close>, \<open>tocWithLabels\<close> and \<open>labels\<close>.
  The source tells the first entry by \<open>currentDirectory == ""\<close>.
\<close>

fun addLabelsLoop :: "string \<Rightarrow> nat \<Rightarrow> string list \<Rightarrow> string list \<Rightarrow> string list
                      \<Rightarrow> string list \<times> string list" where
  "addLabelsLoop currentDirectory labelIndex tocWithLabels labels [] = (tocWithLabels, labels)"
| "addLabelsLoop currentDirectory labelIndex tocWithLabels labels (tocEntry # rest) =
     (let dir = Dir tocEntry;
          labelIndex' = (if currentDirectory = [] then labelIndex
                         else if dir = currentDirectory then labelIndex
                         else labelIndex + 1);
          currentDirectory' = (if currentDirectory = [] then dir else dir);
          labels' = (if \<not> containsString labels dir then labels @ [dir] else labels);
          tocEntryWithLabel = tocEntry @ '' '' @ formatNat labelIndex'
      in addLabelsLoop currentDirectory' labelIndex' (tocWithLabels @ [tocEntryWithLabel])
           labels' rest)"

definition addLabelsToToc :: "string list \<Rightarrow> string list \<times> string list" where
  "addLabelsToToc tableOfContents = addLabelsLoop [] 0 [] [] tableOfContents"

subsection \<open>Prefixing a table of contents\<close>

text \<open>
  The loop of \<open>addParentDirToToc\<close>, with the list \<open>tocWithDir\<close> built so far. The entry is
  split at its spaces; \<open>components[0]\<close> and \<open>components[1]\<close> are read.
\<close>

fun addParentDirLoop :: "string list \<Rightarrow> string \<Rightarrow> string list \<Rightarrow> failure + string list" where
  "addParentDirLoop tocWithDir dir [] = Inr tocWithDir"
| "addParentDirLoop tocWithDir dir (tocEntry # rest) =
     (let components = Split tocEntry (CHR '' '')
      in case index components 0 of
           Inl e \<Rightarrow> Inl e
         | Inr file \<Rightarrow>
             (case index components 1 of
                Inl e \<Rightarrow> Inl e
              | Inr label \<Rightarrow>
                  (let file' = Join [dir, file];
                       line = file' @ '' '' @ label
                   in addParentDirLoop (tocWithDir @ [line]) dir rest)))"

definition addParentDirToToc :: "string list \<Rightarrow> string \<Rightarrow> failure + string list" where
  "addParentDirToToc tableOfContents dir = addParentDirLoop [] dir tableOfContents"

subsection \<open>Saving the training and test data\<close>

text \<open>
  What \<open>SaveTrainTestData\<close> and \<open>writeTocToFile\<close> call outside the solver code, on a local
  file system of type \<open>'fs\<close>: the two artifact paths of the dataset (methods of \<open>Dataset\<close>,
  outside the sources; arguments are the configuration and the dataset id), the blob store
  client and its \<open>Get\<close>, \<open>os.Create\<close>, \<open>untarGzWithToc\<close> (outside the sources; it reads the
  stream through the tee reader that copies it into the file \<open>f\<close>, extracts into the
  directory and returns the table of contents together with an error or nil), and
  \<open>WriteString\<close> and \<open>Flush\<close> of the buffered writer on a created file.
\<close>

record ('c, 'r, 'f, 'fs) dataServices =
  TrainingArtifactPath :: "Configuration \<Rightarrow> string \<Rightarrow> string"
  TestingArtifactPath :: "Configuration \<Rightarrow> string \<Rightarrow> string"
  cbfsclientNew :: "string \<Rightarrow> failure + 'c"
  cbfsGet :: "'c \<Rightarrow> string \<Rightarrow> failure + 'r"
  osCreate :: "'fs \<Rightarrow> string \<Rightarrow> (failure + 'f) \<times> 'fs"
  untarGzWithToc :: "'fs \<Rightarrow> 'r \<Rightarrow> 'f \<Rightarrow> string \<Rightarrow> (string list \<times> failure option) \<times> 'fs"
  WriteString :: "'fs \<Rightarrow> 'f \<Rightarrow> string \<Rightarrow> (failure + nat) \<times> 'fs"
  Flush :: "'fs \<Rightarrow> 'f \<Rightarrow> 'fs"

text \<open>The loop of \<open>writeTocToFile\<close>: each entry is written with a newline after it.\<close>

fun writeLoop :: "('c, 'r, 'f, 'fs) dataServices \<Rightarrow> 'fs \<Rightarrow> 'f \<Rightarrow> string list
                  \<Rightarrow> (failure + unit) \<times> 'fs" where
  "writeLoop E fs w [] = (Inr (), fs)"
| "writeLoop E fs w (tocEntry # rest) =
     (case WriteString E fs w (tocEntry @ [CHR 0x0A]) of
        (Inl err, fs') \<Rightarrow> (Inl err, fs')
      | (Inr n, fs') \<Rightarrow> writeLoop E fs' w rest)"

text \<open>
  \<open>writeTocToFile\<close>. The deferred \<open>w.Flush()\<close> runs on both ways out of the function once
  the writer exists, and what it returns is dropped.
\<close>

definition writeTocToFile ::
  "('c, 'r, 'f, 'fs) dataServices \<Rightarrow> 'fs \<Rightarrow> string list \<Rightarrow> string \<Rightarrow> (failure + unit) \<times> 'fs" where
  "writeTocToFile E fs toc destFile =
     (case osCreate E fs destFile of
        (Inl err, fs1) \<Rightarrow> (Inl err, fs1)
      | (Inr f, fs1) \<Rightarrow>
          (case writeLoop E fs1 f toc of
             (Inl err, fs2) \<Rightarrow> (Inl err, Flush E fs2 f)
           | (Inr u, fs2) \<Rightarrow> (Inr (), Flush E fs2 f)))"

text \<open>
  The body of the loop of \<open>SaveTrainTestData\<close> for one artifact path, in the order of the
  source: client, stream, raw copy file, the choice of subdirectory and index file by
  \<open>artificactPath == trainingArtifact\<close>, \<open>untarGzWithToc\<close>, the labels, the prefixed table,
  the assignment to \<open>trainingLabelIndex\<close>, the test of the error of \<open>untarGzWithToc\<close>, and
  the call of \<open>writeTocToFile\<close>, whose result the source does not read. The result is the new
  value of \<open>trainingLabelIndex\<close>.
\<close>

definition processArtifact ::
  "constants \<Rightarrow> ('c, 'r, 'f, 'fs) dataServices \<Rightarrow> Configuration \<Rightarrow> string \<Rightarrow> string
     \<Rightarrow> string list \<Rightarrow> 'fs \<Rightarrow> string \<Rightarrow> (failure + string list) \<times> 'fs" where
  "processArtifact K E config destDirectory trainingArtifact trainingLabelIndex fs artificactPath =
     (case cbfsclientNew E (CbfsUrl config) of
        Inl err \<Rightarrow> (Inl err, fs)
      | Inr cbfs \<Rightarrow>
          (case cbfsGet E cbfs artificactPath of
             Inl err \<Rightarrow> (Inl err, fs)
           | Inr reader \<Rightarrow>
               (let filename = snd (pathSplit artificactPath);
                    destFile = Join [destDirectory, filename]
                in case osCreate E fs destFile of
                     (Inl err, fs1) \<Rightarrow> (Inl err, fs1)
                   | (Inr f, fs1) \<Rightarrow>
                       (let subdirectory = (if artificactPath = trainingArtifact
                                            then TRAINING_DIR K else TESTING_DIR K);
                            destTocFile = (if artificactPath = trainingArtifact
                                           then Join [destDirectory, TRAINING_INDEX K]
                                           else Join [destDirectory, TESTING_INDEX K]);
                            destDirectoryToUse = Join [destDirectory, subdirectory]
                        in case untarGzWithToc E fs1 reader f destDirectoryToUse of
                             ((toc, err), fs2) \<Rightarrow>
                               (case addLabelsToToc toc of
                                  (tocWithLabels, labelIndex) \<Rightarrow>
                                    (case addParentDirToToc tocWithLabels subdirectory of
                                       Inl p \<Rightarrow> (Inl p, fs2)
                                     | Inr tocWithSubdir \<Rightarrow>
                                         (let trainingLabelIndex' =
                                                (if artificactPath = trainingArtifact
                                                 then labelIndex else trainingLabelIndex)
                                          in case err of
                                               Some e \<Rightarrow> (Inl e, fs2)
                                             | None \<Rightarrow>
                                                 (case writeTocToFile E fs2 tocWithSubdir
                                                         destTocFile of
                                                    (ignored, fs3) \<Rightarrow>
                                                      (Inr trainingLabelIndex', fs3)))))))))"

text \<open>The loop of \<open>SaveTrainTestData\<close> over \<open>artificactPaths\<close>.\<close>

fun artifactLoop ::
  "constants \<Rightarrow> ('c, 'r, 'f, 'fs) dataServices \<Rightarrow> Configuration \<Rightarrow> string \<Rightarrow> string
     \<Rightarrow> string list \<Rightarrow> 'fs \<Rightarrow> string list \<Rightarrow> (failure + string list) \<times> 'fs" where
  "artifactLoop K E config destDirectory trainingArtifact trainingLabelIndex fs [] =
     (Inr trainingLabelIndex, fs)"
| "artifactLoop K E config destDirectory trainingArtifact trainingLabelIndex fs
     (artificactPath # rest) =
     (case processArtifact K E config destDirectory trainingArtifact trainingLabelIndex fs
             artificactPath of
        (Inl err, fs') \<Rightarrow> (Inl err, fs')
      | (Inr trainingLabelIndex', fs') \<Rightarrow>
          artifactLoop K E config destDirectory trainingArtifact trainingLabelIndex' fs' rest)"

definition SaveTrainTestData ::
  "constants \<Rightarrow> ('c, 'r, 'f, 'fs) dataServices \<Rightarrow> Solver \<Rightarrow> Configuration \<Rightarrow> string \<Rightarrow> 'fs
     \<Rightarrow> (failure + string list) \<times> 'fs" where
  "SaveTrainTestData K E s config destDirectory fs =
     (let trainingArtifact = TrainingArtifactPath E config (DatasetId s);
          testArtifact = TestingArtifactPath E config (DatasetId s);
          trainingLabelIndex = [];
          artificactPaths = [trainingArtifact, testArtifact]
      in artifactLoop K E config destDirectory trainingArtifact trainingLabelIndex fs
           artificactPaths)"

section \<open>Notions used in the statements\<close>

subsection \<open>The labelling walk\<close>

text \<open>
  The walk as the specification words it, to be compared with \<open>addLabelsToToc\<close>: entries
  are taken in order; \<open>currentDir\<close> and \<open>labelIndex\<close> (initially 0) are maintained; for the
  entry at index \<open>i\<close> with parent directory \<open>dir\<close>: if this is the first entry,
  \<open>currentDir\<close> is set to \<open>dir\<close>; else if \<open>dir\<close> differs from \<open>currentDir\<close> the label index
  is incremented, and \<open>currentDir\<close> is set to \<open>dir\<close> regardless; \<open>dir\<close> is appended to the
  seen-directories list if not already present; the pair of the entry's path and the
  label index is emitted. The parent directory of an entry is \<open>path.Dir\<close> of it.
\<close>

fun specWalk :: "nat \<Rightarrow> string \<Rightarrow> nat \<Rightarrow> string list \<Rightarrow> string list
                 \<Rightarrow> (string \<times> nat) list \<times> string list" where
  "specWalk i currentDir labelIndex seen [] = ([], seen)"
| "specWalk i currentDir labelIndex seen (entry # entries) =
     (let dir = Dir entry;
          labelIndex' = (if i = 0 then labelIndex
                         else if dir \<noteq> currentDir then labelIndex + 1 else labelIndex);
          seen' = (if dir \<in> set seen then seen else seen @ [dir]);
          (emitted, vocabulary) = specWalk (i + 1) dir labelIndex' seen' entries
      in ((entry, labelIndex') # emitted, vocabulary))"

text \<open>The line of the table of contents for an emitted pair: \<open>"<path> <label>"\<close>.\<close>

definition tocLine :: "string \<times> nat \<Rightarrow> string" where
  "tocLine e = fst e @ '' '' @ formatNat (snd e)"

subsection \<open>Phases and populated layers\<close>

text \<open>
  The phase membership test as the specification words it: a layer is in phase \<open>P\<close> iff
  any of its include markers names \<open>P\<close>.
\<close>

definition inPhase :: "Phase \<Rightarrow> 'o V1LayerParameter \<Rightarrow> bool" where
  "inPhase ph layer = (\<exists>r \<in> set (Include layer). Phase r = Some ph)"

text \<open>
  The markers whose phase a loop reads before it finds its phase: the loop of
  \<open>isTrainingPhase\<close> (of \<open>isTestingPhase\<close>) dereferences the phase of each include marker
  in order and returns at the first that names \<open>TRAIN\<close> (\<open>TEST\<close>), so the markers after that
  one are not read.
\<close>

definition markersBefore :: "Phase \<Rightarrow> 'o V1LayerParameter \<Rightarrow> 'o NetStateRule list" where
  "markersBefore ph layer = takeWhile (\<lambda>r. Phase r \<noteq> Some ph) (Include layer)"

definition phasesRead :: "'o V1LayerParameter \<Rightarrow> bool" where
  "phasesRead layer =
     ((\<forall>r \<in> set (markersBefore Phase_TRAIN layer). Phase r \<noteq> None)
      \<and> (\<forall>r \<in> set (markersBefore Phase_TEST layer). Phase r \<noteq> None))"

text \<open>
  A layer is populated when the fields that the rewrite dereferences on it are present:
  the layer has a type; if the type is \<open>IMAGE_DATA\<close> or \<open>DATA\<close>, the include markers that
  the two loops read name a phase; and a layer of type \<open>IMAGE_DATA\<close> (of type \<open>DATA\<close>) that
  is in a phase has its image-data (data) parameter message. The include markers of a
  layer of another type, and the markers after the one at which a loop returns, are not
  read and need not name a phase.
\<close>

definition populated :: "'o V1LayerParameter \<Rightarrow> bool" where
  "populated layer =
     (Type layer \<noteq> None
      \<and> (Type layer = Some V1LayerParameter_IMAGE_DATA \<or> Type layer = Some V1LayerParameter_DATA
          \<longrightarrow> phasesRead layer)
      \<and> (Type layer = Some V1LayerParameter_IMAGE_DATA
           \<and> (inPhase Phase_TRAIN layer \<or> inPhase Phase_TEST layer)
          \<longrightarrow> ImageDataParam layer \<noteq> None)
      \<and> (Type layer = Some V1LayerParameter_DATA
           \<and> (inPhase Phase_TRAIN layer \<or> inPhase Phase_TEST layer)
          \<longrightarrow> DataParam layer \<noteq> None))"

subsection \<open>Plain paths\<close>

text \<open>
  A plain path is a relative path in the form that \<open>path.Clean\<close> produces, without \<open>..\<close>:
  one or more elements separated by single slashes, each of them non-empty and neither
  \<open>.\<close> nor \<open>..\<close>. \<open>slashJoin\<close> is \<open>strings.Join(elems, "/")\<close>.
\<close>

definition plainElement :: "string \<Rightarrow> bool" where
  "plainElement e = (e \<noteq> [] \<and> CHR ''/'' \<notin> set e \<and> e \<noteq> ''.'' \<and> e \<noteq> ''..'')"

definition plainPath :: "string \<Rightarrow> bool" where
  "plainPath p = list_all plainElement (Split p (CHR ''/''))"

fun slashJoin :: "string list \<Rightarrow> string" where
  "slashJoin [] = []"
| "slashJoin [e] = e"
| "slashJoin (e # f # es) = e @ ''/'' @ slashJoin (f # es)"

subsection \<open>The text of the other fields\<close>

text \<open>
  What the specification asks \<open>modifySolverSpec\<close> to leave byte-identical, for a
  configuration text with one field on a line: the lines of the text other than the
  lines of the fields \<open>net\<close> and \<open>snapshot_prefix\<close>.
\<close>

definition otherLines :: "string \<Rightarrow> string list" where
  "otherLines text =
     filter (\<lambda>line. takeWhile (\<lambda>c. c \<noteq> CHR '':'') line \<notin> {''net'', ''snapshot_prefix''})
       (Split text (CHR 0x0A))"

subsection \<open>A database that reads back what was written\<close>

text \<open>
  \<open>Save\<close> returns the solver that \<open>Retrieve\<close> loads after \<open>Edit\<close>. The database is the
  caller's; what is asked of it is that a document retrieved by its id after an edit of
  that document has the id and the two specification URLs that were written.
\<close>

definition retrievesEdited :: "('o, 'db, 'bs) services \<Rightarrow> bool" where
  "retrievesEdited E =
     (\<forall>db s revision db' s'.
        dbEdit E db s = (Inr revision, db') \<and> dbRetrieve E db' (Id s) = Inr s'
        \<longrightarrow> Id s' = Id s \<and> SpecificationUrl s' = SpecificationUrl s
            \<and> SpecificationNetUrl s' = SpecificationNetUrl s)"

section \<open>Example values\<close>

text \<open>
  Values for the instances below: a table of constants, a solver, layers over the unit
  type for the unnamed fields, and a text codec whose parser returns a given message (or
  fails on every text) and whose printers list the sources of a network and the two
  rewritten fields of a solver.
\<close>

definition exampleConstants :: constants where
  "exampleConstants =
     \<lparr>CBFS_URI_PREFIX = ''cbfs://'',
      TRAINING_INDEX = ''training.txt'',
      TESTING_INDEX = ''testing.txt'',
      TRAINING_DIR = ''training-data'',
      TESTING_DIR = ''testing-data''\<rparr>"

definition includeRule :: "Phase option \<Rightarrow> unit NetStateRule" where
  "includeRule ph = \<lparr>Phase = ph, NetStateRule_rest = ()\<rparr>"

definition exampleLayer ::
  "LayerType option \<Rightarrow> Phase option list \<Rightarrow> string option \<Rightarrow> string option \<Rightarrow> unit V1LayerParameter" where
  "exampleLayer t phases imageSource dataSource =
     \<lparr>Type = t,
      Include = map includeRule phases,
      ImageDataParam = map_option (\<lambda>v. \<lparr>ImageData_Source = Some v, ImageDataParameter_rest = ()\<rparr>) imageSource,
      DataParam = map_option (\<lambda>v. \<lparr>Data_Source = Some v, DataParameter_rest = ()\<rparr>) dataSource,
      V1LayerParameter_rest = ()\<rparr>"

definition exampleNet :: "unit V1LayerParameter list \<Rightarrow> unit NetParameter" where
  "exampleNet layers = \<lparr>Layers = layers, NetParameter_rest = ()\<rparr>"

definition parsesTo :: "'a \<Rightarrow> string \<Rightarrow> failure + 'a" where
  "parsesTo message text = Inr message"

definition neverParses :: "string \<Rightarrow> failure + 'a" where
  "neverParses text = Inl (Failed ''line 1.0: unknown field name'')"

definition layerSources :: "unit V1LayerParameter \<Rightarrow> string" where
  "layerSources layer =
     (case ImageDataParam layer of
        None \<Rightarrow> ''-''
      | Some p \<Rightarrow> (case ImageData_Source p of None \<Rightarrow> ''?'' | Some v \<Rightarrow> v)) @ '','' @
     (case DataParam layer of
        None \<Rightarrow> ''-''
      | Some p \<Rightarrow> (case Data_Source p of None \<Rightarrow> ''?'' | Some v \<Rightarrow> v)) @ '';''"

definition printSources :: "unit NetParameter \<Rightarrow> failure + string" where
  "printSources netParam = Inr (concat (map layerSources (Layers netParam)))"

definition printSolver :: "unit SolverParameter \<Rightarrow> failure + string" where
  "printSolver solverParam =
     Inr (''net: '' @ (case Net solverParam of None \<Rightarrow> ''-'' | Some v \<Rightarrow> v) @
          '' snapshot_prefix: '' @ (case SnapshotPrefix solverParam of None \<Rightarrow> ''-'' | Some v \<Rightarrow> v))"

text \<open>
  The text codec of the protocol-buffer library (\<open>proto.UnmarshalText\<close>,
  \<open>proto.MarshalText\<close>), which is not among the sources, on a fragment of its text format:
  solver messages with the string fields \<open>net\<close>, \<open>lr_policy\<close> and \<open>snapshot_prefix\<close>, in texts
  with at most one field on a line and each field at most once. As in the library, the
  parser skips blank lines and comments, which run from \<open>#\<close> to the end of the line, and
  reads a field as its name, a colon, optional spaces and a string between double or
  single quotes; the printer writes the fields that are set in the order of their
  declaration in the message, each as its name, a colon, a space, the string between
  double quotes and a newline. Strings with a backslash or with their own quote inside,
  and every text outside the fragment, are refused here.
\<close>

record otherFields =
  LrPolicy :: "string option"

definition textOf :: "string list \<Rightarrow> string" where
  "textOf ls = concat (map (\<lambda>l. l @ [CHR 0x0A]) ls)"

definition doubleQuoted :: "string \<Rightarrow> string" where
  "doubleQuoted s = [CHR 0x22] @ s @ [CHR 0x22]"

definition singleQuoted :: "string \<Rightarrow> string" where
  "singleQuoted s = [CHR 0x27] @ s @ [CHR 0x27]"

definition skipSpaces :: "string \<Rightarrow> string" where
  "skipSpaces s = dropWhile (\<lambda>c. c = CHR '' '') s"

definition readString :: "string \<Rightarrow> failure + string" where
  "readString v =
     (case v of
        [] \<Rightarrow> Inl (Failed ''unexpected end of input'')
      | q # cs \<Rightarrow>
          if (q = CHR 0x22 \<or> q = CHR 0x27) \<and> cs \<noteq> [] \<and> last cs = q \<and> q \<notin> set (butlast cs)
             \<and> CHR 0x5C \<notin> set cs
          then Inr (butlast cs)
          else Inl (Failed ''invalid string''))"

definition readLine :: "string \<Rightarrow> otherFields SolverParameter \<Rightarrow> failure + otherFields SolverParameter" where
  "readLine line m =
     (let l = skipSpaces line in
      if l = [] \<or> hd l = CHR ''#'' then Inr m
      else
        let name = takeWhile (\<lambda>c. c \<noteq> CHR '':'') l;
            after = drop (length name) l
        in if after = [] then Inl (Failed ''expected a colon'')
           else
             (case readString (skipSpaces (tl after)) of
                Inl e \<Rightarrow> Inl e
              | Inr v \<Rightarrow>
                  if name = ''net'' \<and> Net m = None then Inr (m\<lparr>Net := Some v\<rparr>)
                  else if name = ''lr_policy'' \<and> LrPolicy (SolverParameter_rest m) = None
                  then Inr (m\<lparr>SolverParameter_rest := \<lparr>LrPolicy = Some v\<rparr>\<rparr>)
                  else if name = ''snapshot_prefix'' \<and> SnapshotPrefix m = None
                  then Inr (m\<lparr>SnapshotPrefix := Some v\<rparr>)
                  else Inl (Failed ''unknown or repeated field'')))"

fun readLines :: "string list \<Rightarrow> otherFields SolverParameter \<Rightarrow> failure + otherFields SolverParameter" where
  "readLines [] m = Inr m"
| "readLines (line # rest) m =
     (case readLine line m of
        Inl e \<Rightarrow> Inl e
      | Inr m' \<Rightarrow> readLines rest m')"

definition readSolverText :: "string \<Rightarrow> failure + otherFields SolverParameter" where
  "readSolverText text =
     readLines (Split text (CHR 0x0A))
       \<lparr>Net = None, SnapshotPrefix = None, SolverParameter_rest = \<lparr>LrPolicy = None\<rparr>\<rparr>"

definition writeField :: "string \<Rightarrow> string option \<Rightarrow> string" where
  "writeField name v =
     (case v of None \<Rightarrow> [] | Some s \<Rightarrow> name @ '': '' @ doubleQuoted s @ [CHR 0x0A])"

definition writeSolverText :: "otherFields SolverParameter \<Rightarrow> failure + string" where
  "writeSolverText m =
     Inr (writeField ''net'' (Net m)
          @ writeField ''lr_policy'' (LrPolicy (SolverParameter_rest m))
          @ writeField ''snapshot_prefix'' (SnapshotPrefix m))"

text \<open>
  Three solver configurations of the fragment: one with comments and a string in single
  quotes, after the solver of the LeNet example of Caffe; the text to which the rewrite
  takes it; and one with the same fields as the first, without comments, in another
  order and in double quotes.
\<close>

definition lenetSolverText :: string where
  "lenetSolverText =
     textOf [''# The train/test net protocol buffer definition'',
             ''net: '' @ doubleQuoted ''examples/mnist/lenet_train_test.prototxt'',
             ''# The learning rate policy'',
             ''lr_policy: '' @ singleQuoted ''inv'',
             ''snapshot_prefix: '' @ doubleQuoted ''examples/mnist/lenet'']"

definition rewrittenSolverText :: string where
  "rewrittenSolverText =
     textOf [''net: '' @ doubleQuoted ''solver-net.prototxt'',
             ''lr_policy: '' @ doubleQuoted ''inv'',
             ''snapshot_prefix: '' @ doubleQuoted ''snapshot'']"

definition plainSolverText :: string where
  "plainSolverText =
     textOf [''lr_policy: '' @ doubleQuoted ''inv'',
             ''snapshot_prefix: '' @ doubleQuoted ''examples/mnist/lenet'',
             ''net: '' @ doubleQuoted ''examples/mnist/lenet_train_test.prototxt'']"

definition exampleSolver :: Solver where
  "exampleSolver =
     \<lparr>Id = ''solver-1'',
      DatasetId = ''dataset-1'',
      SpecificationUrl = ''http://example.com/solver.prototxt'',
      SpecificationNetUrl = ''http://example.com/solver-net.prototxt'',
      Configuration = NewDefaultConfiguration\<rparr>"

text \<open>
  Services for \<open>DownloadSpecToCbfs\<close>: two URLs with content, a blob store that is a list
  of paths with content and refuses the paths of a given set, and a database that is a
  list of documents by id.
\<close>

definition exampleServices ::
  "(string \<Rightarrow> bool) \<Rightarrow> (unit, (string \<times> Solver) list, (string \<times> string) list) services" where
  "exampleServices refused =
     \<lparr>getUrlContent = (\<lambda>url.
        if url = ''http://example.com/solver.prototxt'' then Inr ''net: lenet.prototxt''
        else if url = ''http://example.com/solver-net.prototxt'' then Inr ''layers { }''
        else Inl (Failed ''404 response'')),
      UnmarshalSolverText =
        parsesTo \<lparr>Net = Some ''lenet.prototxt'', SnapshotPrefix = Some ''lenet'',
                   SolverParameter_rest = ()\<rparr>,
      MarshalSolverText = printSolver,
      UnmarshalNetText =
        parsesTo (exampleNet
          [exampleLayer (Some V1LayerParameter_IMAGE_DATA) [Some Phase_TRAIN] (Some ''a.txt'') None,
           exampleLayer (Some V1LayerParameter_IMAGE_DATA) [Some Phase_TEST] (Some ''b.txt'') None]),
      MarshalNetText = printSources,
      cbfsPut = (\<lambda>cbfs srcname dest content contentType.
        if refused dest then (Inl (Failed ''connection refused''), cbfs)
        else (Inr (), (dest, content) # cbfs)),
      dbEdit = (\<lambda>db s. (Inr ''2-revision'', (Id s, s) # db)),
      dbRetrieve = (\<lambda>db docid.
        case map_of db docid of None \<Rightarrow> Inl (Failed ''not found'') | Some s \<Rightarrow> Inr s)\<rparr>"

definition refuseNothing :: "string \<Rightarrow> bool" where
  "refuseNothing path = False"

definition refusePath :: "string \<Rightarrow> string \<Rightarrow> bool" where
  "refusePath refused path = (path = refused)"

text \<open>
  Services for \<open>SaveTrainTestData\<close>: an archive is the list of its entries, a file
  system is a list of paths with content, \<open>os.Create\<close> fails on the paths of a given set,
  and \<open>untarGzWithToc\<close> writes the raw copy and one file per entry and returns the entries.
\<close>

definition appendTo :: "string \<Rightarrow> string \<Rightarrow> (string \<times> string) list \<Rightarrow> (string \<times> string) list" where
  "appendTo file text files = map (\<lambda>(p, c). if p = file then (p, c @ text) else (p, c)) files"

definition exampleDataServices ::
  "(string \<Rightarrow> bool) \<Rightarrow> (unit, string list, string, (string \<times> string) list) dataServices" where
  "exampleDataServices denied =
     \<lparr>TrainingArtifactPath = (\<lambda>config datasetId. datasetId @ ''/training.tar.gz''),
      TestingArtifactPath = (\<lambda>config datasetId. datasetId @ ''/testing.tar.gz''),
      cbfsclientNew = (\<lambda>url. Inr ()),
      cbfsGet = (\<lambda>cbfs path.
        if path = ''dataset-1/training.tar.gz'' then Inr [''A/x.png'', ''A/y.png'', ''B/z.png'']
        else if path = ''dataset-1/testing.tar.gz'' then Inr [''B/u.png'', ''C/v.png'']
        else Inl (Failed ''not found'')),
      osCreate = (\<lambda>files path.
        if denied path then (Inl (Failed ''permission denied''), files)
        else (Inr path, (path, []) # files)),
      untarGzWithToc = (\<lambda>files reader f dest.
        ((reader, None), map (\<lambda>entry. (Join [dest, entry], ''png'')) reader @ appendTo f ''tar.gz'' files)),
      WriteString = (\<lambda>files f text. (Inr (length text), appendTo f text files)),
      Flush = (\<lambda>files f. files)\<rparr>"

section \<open>Properties of the library functions\<close>

lemma Clean_nonempty: "Clean p \<noteq> []"
  by (simp add: Clean_def Let_def)

lemma Dir_nonempty: "Dir p \<noteq> []"
  by (simp add: Dir_def Clean_nonempty)

lemma Replace1_prefix: "HasPrefix s old \<Longrightarrow> Replace1 s old new = new @ drop (length old) s"
  by (cases s) (auto simp: HasPrefix_def)

lemma HasPrefix_append: "HasPrefix s pre \<Longrightarrow> pre @ drop (length pre) s = s"
  unfolding HasPrefix_def by (metis append_take_drop_id)

lemma Split_free: "sep \<notin> set p \<Longrightarrow> Split p sep = [p]"
  by (induction p) auto

lemma Split_append: "sep \<notin> set p \<Longrightarrow> Split (p @ sep # q) sep = p # Split q sep"
  by (induction p) auto

lemma Split_nonempty: "Split s sep \<noteq> []"
  by (induction s) (auto split: list.splits)

lemma Split_length: "length (Split s sep) = Suc (length (filter (\<lambda>c. c = sep) s))"
  by (induction s) (auto split: list.splits simp: Split_nonempty)

text \<open>
  \<open>path.Clean\<close> returns a plain path as it is, so \<open>path.Join\<close> of two plain paths puts a
  slash between them.
\<close>

lemma slashJoin_Cons: "es \<noteq> [] \<Longrightarrow> slashJoin (e # es) = e @ ''/'' @ slashJoin es"
  by (cases es) simp_all

lemma slashJoin_Split: "slashJoin (Split p (CHR ''/'')) = p"
proof (induction p)
  case Nil
  show ?case by simp
next
  case (Cons c cs)
  obtain piece pieces where sp: "Split cs (CHR ''/'') = piece # pieces"
    using Split_nonempty [of cs "CHR ''/''"] by (cases "Split cs (CHR ''/'')") auto
  show ?case
  proof (cases "c = CHR ''/''")
    case True
    with Cons sp show ?thesis by simp
  next
    case False
    with Cons sp show ?thesis by (cases pieces) simp_all
  qed
qed

lemma cleanStep_plain:
  assumes "plainElement e" and "rest = [] \<or> (\<exists>r. rest = CHR ''/'' # r)"
  shows "cleanStep False out 0 (e @ rest) = ((if out = [] then [] else out @ ''/'') @ e, 0, rest)"
proof -
  from assms(1) obtain c e' where e: "e = c # e'" and c: "c \<noteq> CHR ''/''"
    and e': "CHR ''/'' \<notin> set e'"
    by (cases e) (auto simp: plainElement_def)
  have nodot: "\<not> isDot (e @ rest)"
  proof (cases e')
    case Nil
    with assms(1) e show ?thesis by (auto simp: plainElement_def)
  next
    case (Cons d e'')
    with e e' show ?thesis by auto
  qed
  have nodotdot: "\<not> isDotDot (e @ rest)"
  proof (cases e')
    case Nil
    with assms(2) e show ?thesis by auto
  next
    case (Cons d e'')
    show ?thesis
    proof (cases e'')
      case Nil
      with Cons assms(1) e show ?thesis by (auto simp: plainElement_def)
    next
      case (Cons x e''')
      with \<open>e' = d # e''\<close> e e' show ?thesis by auto
    qed
  qed
  have noslash: "\<forall>b \<in> set e. b \<noteq> CHR ''/''"
    using e c e' by auto
  have stop: "takeWhile (\<lambda>b. b \<noteq> CHR ''/'') rest = []" "dropWhile (\<lambda>b. b \<noteq> CHR ''/'') rest = rest"
    using assms(2) by auto
  have tw: "takeWhile (\<lambda>b. b \<noteq> CHR ''/'') (e @ rest) = e"
    using noslash stop by (simp add: takeWhile_append2)
  have dw: "dropWhile (\<lambda>b. b \<noteq> CHR ''/'') (e @ rest) = rest"
    using noslash stop by (simp add: dropWhile_append2)
  have first: "take 1 (e @ rest) \<noteq> ''/''"
    using e c by simp
  show ?thesis
    unfolding cleanStep_def using first nodot nodotdot tw dw
    by (simp add: Let_def)
qed

lemma cleanStep_slash: "cleanStep rooted out dotdot (CHR ''/'' # r) = (out, dotdot, r)"
  by (simp add: cleanStep_def)

lemma cleanLoop_plain:
  "es \<noteq> [] \<Longrightarrow> list_all plainElement es \<Longrightarrow>
   cleanLoop False out 0 (slashJoin es) = (if out = [] then [] else out @ ''/'') @ slashJoin es"
proof (induction es arbitrary: out rule: slashJoin.induct)
  case 1
  then show ?case by simp
next
  case (2 e)
  then have pe: "plainElement e" by simp
  then have ne: "e \<noteq> []" by (simp add: plainElement_def)
  from cleanStep_plain [OF pe, of "[]" out]
  have "cleanStep False out 0 e = ((if out = [] then [] else out @ ''/'') @ e, 0, [])" by simp
  with ne show ?case
    by (subst cleanLoop.simps) (simp add: cleanLoop.simps [of _ _ _ "[]"])
next
  case (3 e f es)
  then have pe: "plainElement e" and rest: "list_all plainElement (f # es)" by simp_all
  from pe have ne: "e \<noteq> []" by (simp add: plainElement_def)
  let ?out = "(if out = [] then [] else out @ ''/'') @ e"
  let ?rest = "CHR ''/'' # slashJoin (f # es)"
  from cleanStep_plain [OF pe, of ?rest out]
  have step: "cleanStep False out 0 (e @ ?rest) = (?out, 0, ?rest)" by simp
  have "cleanLoop False out 0 (slashJoin (e # f # es)) = cleanLoop False ?out 0 ?rest"
    using ne step by (subst cleanLoop.simps) simp
  also have "\<dots> = cleanLoop False ?out 0 (slashJoin (f # es))"
    by (subst cleanLoop.simps) (simp add: cleanStep_slash)
  also have "\<dots> = (?out @ ''/'') @ slashJoin (f # es)"
    using "3.IH" [of ?out] rest ne by simp
  finally show ?case by simp
qed

lemma Clean_plain:
  assumes "plainPath p"
  shows "Clean p = p"
proof -
  let ?es = "Split p (CHR ''/'')"
  have es: "?es \<noteq> []" by (rule Split_nonempty)
  have all: "list_all plainElement ?es" using assms by (simp add: plainPath_def)
  have p: "slashJoin ?es = p" by (rule slashJoin_Split)
  from es all obtain e es' where split: "?es = e # es'" and pe: "plainElement e"
    by (cases ?es) auto
  have "take 1 (slashJoin (e # es')) \<noteq> ''/''" and "slashJoin (e # es') \<noteq> []"
    using pe by (cases es'; cases e; auto simp: plainElement_def)+
  then have first: "take 1 p \<noteq> ''/''" and ne: "p \<noteq> []"
    using p split by simp_all
  from cleanLoop_plain [OF es all, of "[]"] p have "cleanLoop False [] 0 p = p" by simp
  with first ne show ?thesis by (simp add: Clean_def)
qed

lemma plainPath_append:
  assumes "plainPath d" and "plainPath p"
  shows "plainPath (d @ ''/'' @ p)"
proof -
  have "Split (d @ CHR ''/'' # p) (CHR ''/'') = Split d (CHR ''/'') @ Split p (CHR ''/'')" for d p
  proof (induction d)
    case Nil
    show ?case by simp
  next
    case (Cons c cs)
    obtain piece pieces where "Split cs (CHR ''/'') = piece # pieces"
      using Split_nonempty [of cs "CHR ''/''"] by (cases "Split cs (CHR ''/'')") auto
    with Cons show ?case by simp
  qed
  with assms show ?thesis by (simp add: plainPath_def)
qed

lemma plainPath_nonempty: "plainPath p \<Longrightarrow> p \<noteq> []"
  by (auto simp: plainPath_def plainElement_def)

lemma Join_plain:
  assumes "plainPath d" and "plainPath p"
  shows "Join [d, p] = d @ ''/'' @ p"
proof -
  from assms have "d \<noteq> []" and "p \<noteq> []" by (simp_all add: plainPath_nonempty)
  then have "Join [d, p] = Clean (d @ ''/'' @ p)" by (simp add: Join_def)
  with Clean_plain [OF plainPath_append [OF assms]] show ?thesis by simp
qed

section \<open>The labelling function\<close>

lemma addLabelsLoop_specWalk:
  "(i = 0 \<longleftrightarrow> cur = []) \<Longrightarrow>
   addLabelsLoop cur idx acc seen es =
     (acc @ map tocLine (fst (specWalk i cur idx seen es)), snd (specWalk i cur idx seen es))"
proof (induction es arbitrary: i cur idx acc seen)
  case Nil
  then show ?case by simp
next
  case (Cons e es)
  let ?idx' = "if cur = [] then idx else if Dir e = cur then idx else idx + 1"
  let ?seen' = "if Dir e \<in> set seen then seen else seen @ [Dir e]"
  have step: "addLabelsLoop (Dir e) ?idx' (acc @ [tocLine (e, ?idx')]) ?seen' es =
     ((acc @ [tocLine (e, ?idx')]) @ map tocLine (fst (specWalk (i + 1) (Dir e) ?idx' ?seen' es)),
      snd (specWalk (i + 1) (Dir e) ?idx' ?seen' es))"
    by (rule Cons.IH) (simp add: Dir_nonempty)
  show ?case
  proof (cases "cur = []")
    case True
    with Cons.prems have "i = 0" by simp
    with True step show ?thesis
      by (cases "Dir e \<in> set seen")
         (simp_all add: Let_def containsString_def tocLine_def case_prod_beta)
  next
    case False
    with Cons.prems have "i \<noteq> 0" by simp
    with False step show ?thesis
      by (cases "Dir e \<in> set seen"; cases "Dir e = cur")
         (simp_all add: Let_def containsString_def tocLine_def case_prod_beta)
  qed
qed

lemma remdups_drop_earlier: "d \<in> set ys \<Longrightarrow> remdups (xs @ d # ys) = remdups (xs @ ys)"
  by (induction xs) auto

lemma specWalk_vocabulary:
  "distinct seen \<Longrightarrow>
   snd (specWalk i cur idx seen es) = rev (remdups (rev (seen @ map Dir es)))"
proof (induction es arbitrary: i cur idx seen)
  case Nil
  then show ?case by (simp add: distinct_remdups_id)
next
  case (Cons e es)
  then show ?case
    by (simp add: Let_def case_prod_beta remdups_drop_earlier)
qed

lemma addLabelsToToc_example:
  "addLabelsToToc [''A/x.png'', ''A/y.png'', ''B/z.png'', ''A/w.png''] =
     ([''A/x.png 0'', ''A/y.png 0'', ''B/z.png 1'', ''A/w.png 2''], [''A'', ''B''])"
  by code_simp

text \<open>
  C1. \<open>addLabelsToToc\<close> is the walk of the specification: its table of contents is the
  list of the pairs the walk emits (started at index 0 with label index 0 and nothing
  seen), each written as \<open>"<path> <label>"\<close>, and its label index is the walk's
  seen-directories list, which is the list of the distinct parent directories in
  first-seen order. For the entries \<open>A/x.png\<close>, \<open>A/y.png\<close>, \<open>B/z.png\<close>, \<open>A/w.png\<close> the labels
  are 0, 0, 1, 2 and the vocabulary is \<open>[A, B]\<close>.
\<close>

theorem addLabelsToToc_is_specWalk:
  "addLabelsToToc toc =
     (map tocLine (fst (specWalk 0 [] 0 [] toc)), snd (specWalk 0 [] 0 [] toc))
   \<and> snd (addLabelsToToc toc) = rev (remdups (rev (map Dir toc)))
   \<and> specWalk 0 [] 0 [] [''A/x.png'', ''A/y.png'', ''B/z.png'', ''A/w.png''] =
       ([(''A/x.png'', 0), (''A/y.png'', 0), (''B/z.png'', 1), (''A/w.png'', 2)], [''A'', ''B''])
   \<and> addLabelsToToc [''A/x.png'', ''A/y.png'', ''B/z.png'', ''A/w.png''] =
       ([''A/x.png 0'', ''A/y.png 0'', ''B/z.png 1'', ''A/w.png 2''], [''A'', ''B''])"
proof -
  have walk: "addLabelsToToc toc =
      (map tocLine (fst (specWalk 0 [] 0 [] toc)), snd (specWalk 0 [] 0 [] toc))"
    unfolding addLabelsToToc_def by (simp add: addLabelsLoop_specWalk [of 0 "[]"])
  have voc: "snd (addLabelsToToc toc) = rev (remdups (rev (map Dir toc)))"
    using specWalk_vocabulary [of "[]" 0 "[]" 0 toc] by (simp add: walk)
  have ex: "specWalk 0 [] 0 [] [''A/x.png'', ''A/y.png'', ''B/z.png'', ''A/w.png''] =
       ([(''A/x.png'', 0), (''A/y.png'', 0), (''B/z.png'', 1), (''A/w.png'', 2)], [''A'', ''B''])"
    by code_simp
  from walk voc ex addLabelsToToc_example show ?thesis by blast
qed

theorem addLabelsToToc_is_specWalk_witness:
  "addLabelsToToc [''Q/Verdana-5-0.png'', ''R/Arial-5-0.png''] =
     (map tocLine (fst (specWalk 0 [] 0 [] [''Q/Verdana-5-0.png'', ''R/Arial-5-0.png''])),
      snd (specWalk 0 [] 0 [] [''Q/Verdana-5-0.png'', ''R/Arial-5-0.png'']))"
  using addLabelsToToc_is_specWalk [of "[''Q/Verdana-5-0.png'', ''R/Arial-5-0.png'']"]
  by blast

section \<open>References into the blob store\<close>

text \<open>
  C4. For a solver whose specification URL starts with \<open>CBFS_URI_PREFIX\<close>,
  \<open>SpecificationUrlPath\<close> returns the URL without the prefix, verbatim, and putting the
  prefix back in front of that path (as \<open>DownloadSpecToCbfs\<close> builds a reference) gives the
  URL again; for a URL that lacks the prefix it returns an error. The same holds of
  \<open>SpecificationNetUrlPath\<close> and the specification-net URL.
\<close>

theorem SpecificationUrlPath_roundtrip:
  "(HasPrefix (SpecificationUrl s) (CBFS_URI_PREFIX K) \<longrightarrow>
      SpecificationUrlPath K s = Inr (drop (length (CBFS_URI_PREFIX K)) (SpecificationUrl s))
      \<and> cbfsUrl K (drop (length (CBFS_URI_PREFIX K)) (SpecificationUrl s)) = SpecificationUrl s)
   \<and> (\<not> HasPrefix (SpecificationUrl s) (CBFS_URI_PREFIX K) \<longrightarrow>
      (\<exists>msg. SpecificationUrlPath K s = Inl (Failed msg)))
   \<and> (HasPrefix (SpecificationNetUrl s) (CBFS_URI_PREFIX K) \<longrightarrow>
      SpecificationNetUrlPath K s = Inr (drop (length (CBFS_URI_PREFIX K)) (SpecificationNetUrl s))
      \<and> cbfsUrl K (drop (length (CBFS_URI_PREFIX K)) (SpecificationNetUrl s)) = SpecificationNetUrl s)
   \<and> (\<not> HasPrefix (SpecificationNetUrl s) (CBFS_URI_PREFIX K) \<longrightarrow>
      (\<exists>msg. SpecificationNetUrlPath K s = Inl (Failed msg)))"
  by (simp add: SpecificationUrlPath_def SpecificationNetUrlPath_def cbfsUrl_def
        Replace1_prefix HasPrefix_append)

theorem SpecificationUrlPath_roundtrip_witness:
  "HasPrefix ''cbfs://solver-1/solver.prototxt'' (CBFS_URI_PREFIX exampleConstants)
   \<and> SpecificationUrlPath exampleConstants
        (exampleSolver\<lparr>SpecificationUrl := ''cbfs://solver-1/solver.prototxt''\<rparr>) =
      Inr ''solver-1/solver.prototxt''
   \<and> cbfsUrl exampleConstants ''solver-1/solver.prototxt'' = ''cbfs://solver-1/solver.prototxt''
   \<and> \<not> HasPrefix ''http://example.com/solver-net.prototxt'' (CBFS_URI_PREFIX exampleConstants)
   \<and> (\<exists>msg. SpecificationNetUrlPath exampleConstants
               (exampleSolver\<lparr>SpecificationUrl := ''cbfs://solver-1/solver.prototxt''\<rparr>) =
             Inl (Failed msg))
   \<and> \<not> HasPrefix ''http://example.com/solver.prototxt'' (CBFS_URI_PREFIX exampleConstants)
   \<and> (\<exists>msg. SpecificationUrlPath exampleConstants
               (exampleSolver\<lparr>SpecificationNetUrl := ''cbfs://solver-1/solver-net.prototxt''\<rparr>) =
             Inl (Failed msg))
   \<and> HasPrefix ''cbfs://solver-1/solver-net.prototxt'' (CBFS_URI_PREFIX exampleConstants)
   \<and> SpecificationNetUrlPath exampleConstants
        (exampleSolver\<lparr>SpecificationNetUrl := ''cbfs://solver-1/solver-net.prototxt''\<rparr>) =
      Inr ''solver-1/solver-net.prototxt''
   \<and> cbfsUrl exampleConstants ''solver-1/solver-net.prototxt'' =
      ''cbfs://solver-1/solver-net.prototxt''"
  using SpecificationUrlPath_roundtrip
          [of "exampleSolver\<lparr>SpecificationUrl := ''cbfs://solver-1/solver.prototxt''\<rparr>"
              exampleConstants]
        SpecificationUrlPath_roundtrip
          [of "exampleSolver\<lparr>SpecificationNetUrl := ''cbfs://solver-1/solver-net.prototxt''\<rparr>"
              exampleConstants]
  by (simp add: exampleSolver_def exampleConstants_def HasPrefix_def)

section \<open>Prefixing a table of contents\<close>

lemma index_Split_0: "index (Split e sep) 0 = Inr (Split e sep ! 0)"
  by (simp add: index_def Split_nonempty)

lemma index_Split_1:
  "index (Split e sep) (Suc 0) =
     (if sep \<in> set e then Inr (Split e sep ! Suc 0) else Inl (Panicked IndexOutOfRange))"
proof -
  have "sep \<in> set e \<longleftrightarrow> filter (\<lambda>c. c = sep) e \<noteq> []"
    by (auto simp: filter_empty_conv)
  then show ?thesis
    by (auto simp: index_def Split_length)
qed

lemma addParentDirLoop_result:
  "addParentDirLoop acc dir toc =
     (if \<forall>e \<in> set toc. CHR '' '' \<in> set e
      then Inr (acc @ map (\<lambda>e. Join [dir, Split e (CHR '' '') ! 0] @ '' '' @ Split e (CHR '' '') ! 1) toc)
      else Inl (Panicked IndexOutOfRange))"
  by (induction toc arbitrary: acc) (simp_all add: index_Split_0 index_Split_1 Let_def)

lemma digitChar_no_space: "d < 10 \<Longrightarrow> digitChar d \<noteq> CHR '' ''"
proof -
  assume "d < 10"
  then have "d \<in> {0, 1, 2, 3, 4, 5, 6, 7, 8, 9}" by auto
  then show ?thesis by (auto simp: digitChar_def)
qed

lemma formatNat_no_space: "CHR '' '' \<notin> set (formatNat n)"
proof (induction n rule: formatNat.induct)
  case (1 n)
  show ?case
  proof (cases "n < 10")
    case True
    then have "digitChar n \<noteq> CHR '' ''" by (rule digitChar_no_space)
    with True show ?thesis by (subst formatNat.simps) auto
  next
    case False
    then have "CHR '' '' \<notin> set (formatNat (n div 10))" by (rule 1)
    moreover have "digitChar (n mod 10) \<noteq> CHR '' ''" by (rule digitChar_no_space) simp
    ultimately show ?thesis using False by (subst formatNat.simps) auto
  qed
qed

lemma Split_tocLine:
  assumes "CHR '' '' \<notin> set p"
  shows "Split (tocLine (p, n)) (CHR '' '') = [p, formatNat n]"
proof -
  have "Split (p @ CHR '' '' # formatNat n) (CHR '' '') = p # Split (formatNat n) (CHR '' '')"
    using assms by (rule Split_append)
  then show ?thesis by (simp add: tocLine_def Split_free formatNat_no_space)
qed

lemma tocLine_has_space: "CHR '' '' \<in> set (tocLine e)"
  by (simp add: tocLine_def)

lemma addParentDirToToc_example:
  "addParentDirToToc [''a/b.png 0''] ''training-data'' = Inr [''training-data/a/b.png 0'']"
  by code_simp

text \<open>
  C5 (amended). \<open>addParentDirToToc\<close> does not fail on a table in which every entry
  contains a space, and returns a table of the same length; on a table with an entry
  without a space it panics. On a labelled table, whose
  entries are \<open>"<path> <label>"\<close> with a path without spaces and a numeric label, it
  returns, in the same order, the entries \<open>"<joined> <label>"\<close> where \<open>joined\<close> is
  \<open>path.Join(dir, path)\<close>: the label is kept. When \<open>dir\<close> and the paths are plain paths,
  \<open>joined\<close> is the path with \<open>dir\<close> and a slash in front. Applied to \<open>["a/b.png 0"]\<close> with
  \<open>"training-data"\<close> it yields \<open>["training-data/a/b.png 0"]\<close>.
\<close>

theorem addParentDirToToc_labelled:
  "((\<forall>e \<in> set toc. CHR '' '' \<in> set e) \<longrightarrow>
      (\<exists>toc'. addParentDirToToc toc dir = Inr toc' \<and> length toc' = length toc))
   \<and> ((\<exists>e \<in> set toc. CHR '' '' \<notin> set e) \<longrightarrow>
      addParentDirToToc toc dir = Inl (Panicked IndexOutOfRange))
   \<and> ((\<forall>e \<in> set entries. CHR '' '' \<notin> set (fst e)) \<longrightarrow>
      addParentDirToToc (map tocLine entries) dir =
        Inr (map (\<lambda>e. tocLine (Join [dir, fst e], snd e)) entries))
   \<and> (plainPath dir \<and> (\<forall>e \<in> set entries. CHR '' '' \<notin> set (fst e) \<and> plainPath (fst e)) \<longrightarrow>
      addParentDirToToc (map tocLine entries) dir =
        Inr (map (\<lambda>e. tocLine (dir @ ''/'' @ fst e, snd e)) entries))
   \<and> addParentDirToToc [''a/b.png 0''] ''training-data'' = Inr [''training-data/a/b.png 0'']"
proof -
  have total: "(\<forall>e \<in> set toc. CHR '' '' \<in> set e) \<longrightarrow>
      (\<exists>toc'. addParentDirToToc toc dir = Inr toc' \<and> length toc' = length toc)"
    by (simp add: addParentDirToToc_def addParentDirLoop_result)
  have partial: "(\<exists>e \<in> set toc. CHR '' '' \<notin> set e) \<longrightarrow>
      addParentDirToToc toc dir = Inl (Panicked IndexOutOfRange)"
    by (auto simp add: addParentDirToToc_def addParentDirLoop_result)
  have labelled: "addParentDirToToc (map tocLine entries) dir =
        Inr (map (\<lambda>e. tocLine (Join [dir, fst e], snd e)) entries)"
    if free: "\<forall>e \<in> set entries. CHR '' '' \<notin> set (fst e)"
  proof -
    have "Split (tocLine e) (CHR '' '') = [fst e, formatNat (snd e)]" if "e \<in> set entries" for e
      using Split_tocLine [of "fst e" "snd e"] free that by simp
    then have "map (\<lambda>e. Join [dir, Split e (CHR '' '') ! 0] @ '' '' @ Split e (CHR '' '') ! 1)
                 (map tocLine entries) =
               map (\<lambda>e. tocLine (Join [dir, fst e], snd e)) entries"
      by (simp add: tocLine_def)
    then show ?thesis
      by (simp add: addParentDirToToc_def addParentDirLoop_result tocLine_has_space)
  qed
  have plain: "addParentDirToToc (map tocLine entries) dir =
        Inr (map (\<lambda>e. tocLine (dir @ ''/'' @ fst e, snd e)) entries)"
    if dir: "plainPath dir"
      and paths: "\<forall>e \<in> set entries. CHR '' '' \<notin> set (fst e) \<and> plainPath (fst e)"
  proof -
    have "map (\<lambda>e. tocLine (Join [dir, fst e], snd e)) entries =
          map (\<lambda>e. tocLine (dir @ ''/'' @ fst e, snd e)) entries"
      using dir paths by (simp add: Join_plain)
    with labelled paths show ?thesis by simp
  qed
  from total partial labelled plain addParentDirToToc_example show ?thesis by blast
qed

theorem addParentDirToToc_labelled_witness:
  "addParentDirToToc [''Q/Verdana-5-0.png 27'', ''R/Arial-5-0.png 28''] ''training-data'' =
     Inr [''training-data/Q/Verdana-5-0.png 27'', ''training-data/R/Arial-5-0.png 28'']
   \<and> Join [''training-data'', ''Q/Verdana-5-0.png''] = ''training-data/Q/Verdana-5-0.png''
   \<and> (\<exists>toc'. addParentDirToToc [''a b.png 0'', ''c/d.png 1''] [] = Inr toc' \<and> length toc' = 2)
   \<and> addParentDirToToc [''a/b.png 0'', ''c.png''] ''training-data'' = Inl (Panicked IndexOutOfRange)"
proof -
  let ?entries = "[(''Q/Verdana-5-0.png'', 27::nat), (''R/Arial-5-0.png'', 28)]"
  have plain: "plainPath ''training-data''
      \<and> (\<forall>e \<in> set ?entries. CHR '' '' \<notin> set (fst e) \<and> plainPath (fst e))"
    by code_simp
  then have free: "\<forall>e \<in> set ?entries. CHR '' '' \<notin> set (fst e)"
    by simp
  have lines: "map tocLine ?entries = [''Q/Verdana-5-0.png 27'', ''R/Arial-5-0.png 28'']"
    by code_simp
  have prefixed: "map (\<lambda>e. tocLine (''training-data'' @ ''/'' @ fst e, snd e)) ?entries =
      [''training-data/Q/Verdana-5-0.png 27'', ''training-data/R/Arial-5-0.png 28'']"
    by code_simp
  have spaced: "\<forall>e \<in> set [''a b.png 0'', ''c/d.png 1'']. CHR '' '' \<in> set e"
    by simp
  note inst = addParentDirToToc_labelled
         [of "[''a b.png 0'', ''c/d.png 1'']" "''training-data''" ?entries]
  from inst plain
  have one: "addParentDirToToc (map tocLine ?entries) ''training-data'' =
        Inr (map (\<lambda>e. tocLine (''training-data'' @ ''/'' @ fst e, snd e)) ?entries)"
    by blast
  from inst free
  have "addParentDirToToc (map tocLine ?entries) ''training-data'' =
        Inr (map (\<lambda>e. tocLine (Join [''training-data'', fst e], snd e)) ?entries)"
    by blast
  with one have "map (\<lambda>e. tocLine (Join [''training-data'', fst e], snd e)) ?entries =
      map (\<lambda>e. tocLine (''training-data'' @ ''/'' @ fst e, snd e)) ?entries"
    by simp
  then have two: "Join [''training-data'', ''Q/Verdana-5-0.png''] = ''training-data/Q/Verdana-5-0.png''"
    by (simp add: tocLine_def)
  from addParentDirToToc_labelled [of "[''a b.png 0'', ''c/d.png 1'']" "[]" "[]"] spaced
  have three: "\<exists>toc'. addParentDirToToc [''a b.png 0'', ''c/d.png 1''] [] = Inr toc' \<and> length toc' = 2"
    by (simp add: eval_nat_numeral)
  have unspaced: "\<exists>e \<in> set [''a/b.png 0'', ''c.png'']. CHR '' '' \<notin> set e"
    by simp
  with addParentDirToToc_labelled [of "[''a/b.png 0'', ''c.png'']" "''training-data''" "[]"]
  have four: "addParentDirToToc [''a/b.png 0'', ''c.png''] ''training-data'' =
      Inl (Panicked IndexOutOfRange)"
    by blast
  from one two three four show ?thesis unfolding lines prefixed by blast
qed

text \<open>
  The function is not total on lists of strings: on an entry without a space, such as the
  entries of a table that has not been labelled, \<open>components[1]\<close> is out of range. And
  \<open>path.Join\<close> cleans what it joins, so a path is not always prefixed: \<open>../b.png\<close> under
  \<open>training-data\<close> is \<open>b.png\<close>.
\<close>

theorem addParentDirToToc_counterexample:
  "addParentDirToToc [''a/b.png''] ''training-data'' = Inl (Panicked IndexOutOfRange)
   \<and> addParentDirToToc [''../b.png 0''] ''training-data'' = Inr [''b.png 0'']"
  by code_simp

section \<open>Rewriting the network configuration\<close>

lemma phaseLoop_read:
  "\<forall>r \<in> set (takeWhile (\<lambda>r. Phase r \<noteq> Some ph) rs). Phase r \<noteq> None
   \<Longrightarrow> phaseLoop ph rs = Inr (\<exists>r \<in> set rs. Phase r = Some ph)"
  by (induction rs) (auto split: option.splits if_splits)

lemma phaseLoop_unread:
  "\<exists>r \<in> set (takeWhile (\<lambda>r. Phase r \<noteq> Some ph) rs). Phase r = None
   \<Longrightarrow> phaseLoop ph rs = Inl (Panicked NilDereference)"
  by (induction rs) (auto split: option.splits if_splits)

lemma markersBefore_ImageDataParam [simp]:
  "markersBefore ph (l\<lparr>ImageDataParam := x\<rparr>) = markersBefore ph l"
  by (simp add: markersBefore_def)

lemma markersBefore_DataParam [simp]:
  "markersBefore ph (l\<lparr>DataParam := x\<rparr>) = markersBefore ph l"
  by (simp add: markersBefore_def)

lemma isTrainingPhase_read:
  "\<forall>r \<in> set (markersBefore Phase_TRAIN l). Phase r \<noteq> None
   \<Longrightarrow> isTrainingPhase l = Inr (inPhase Phase_TRAIN l)"
  by (simp add: isTrainingPhase_def inPhase_def markersBefore_def phaseLoop_read)

lemma isTestingPhase_read:
  "\<forall>r \<in> set (markersBefore Phase_TEST l). Phase r \<noteq> None
   \<Longrightarrow> isTestingPhase l = Inr (inPhase Phase_TEST l)"
  by (simp add: isTestingPhase_def inPhase_def markersBefore_def phaseLoop_read)

lemma isTrainingPhase_unread:
  "\<exists>r \<in> set (markersBefore Phase_TRAIN l). Phase r = None
   \<Longrightarrow> isTrainingPhase l = Inl (Panicked NilDereference)"
  by (simp add: isTrainingPhase_def markersBefore_def phaseLoop_unread)

lemma isTestingPhase_unread:
  "\<exists>r \<in> set (markersBefore Phase_TEST l). Phase r = None
   \<Longrightarrow> isTestingPhase l = Inl (Panicked NilDereference)"
  by (simp add: isTestingPhase_def markersBefore_def phaseLoop_unread)

lemma inPhase_ImageDataParam [simp]: "inPhase ph (l\<lparr>ImageDataParam := x\<rparr>) = inPhase ph l"
  by (simp add: inPhase_def)

lemma inPhase_DataParam [simp]: "inPhase ph (l\<lparr>DataParam := x\<rparr>) = inPhase ph l"
  by (simp add: inPhase_def)

lemma modifyLayer_other:
  "Type l = Some (V1LayerParameter_other n) \<Longrightarrow> modifyLayer K l = Inr l"
  by (simp add: modifyLayer_def)

lemma modifyLayer_image_unmarked:
  assumes "Type l = Some V1LayerParameter_IMAGE_DATA"
    and "phasesRead l"
    and "\<not> inPhase Phase_TRAIN l" and "\<not> inPhase Phase_TEST l"
  shows "modifyLayer K l = Inr l"
  using assms by (simp add: modifyLayer_def phasesRead_def isTrainingPhase_read isTestingPhase_read)

lemma modifyLayer_image:
  assumes "Type l = Some V1LayerParameter_IMAGE_DATA"
    and "phasesRead l"
    and "ImageDataParam l = Some p"
  shows "modifyLayer K l =
     Inr (if inPhase Phase_TEST l
          then l\<lparr>ImageDataParam := Some (p\<lparr>ImageData_Source := Some (TESTING_INDEX K)\<rparr>)\<rparr>
          else if inPhase Phase_TRAIN l
          then l\<lparr>ImageDataParam := Some (p\<lparr>ImageData_Source := Some (TRAINING_INDEX K)\<rparr>)\<rparr>
          else l)"
  using assms
  by (simp add: modifyLayer_def phasesRead_def isTrainingPhase_read isTestingPhase_read
        setImageDataSource_def)

lemma modifyLayer_data_unmarked:
  assumes "Type l = Some V1LayerParameter_DATA"
    and "phasesRead l"
    and "\<not> inPhase Phase_TRAIN l" and "\<not> inPhase Phase_TEST l"
  shows "modifyLayer K l = Inr l"
  using assms by (simp add: modifyLayer_def phasesRead_def isTrainingPhase_read isTestingPhase_read)

lemma modifyLayer_data:
  assumes "Type l = Some V1LayerParameter_DATA"
    and "phasesRead l"
    and "DataParam l = Some p"
  shows "modifyLayer K l =
     Inr (if inPhase Phase_TEST l
          then l\<lparr>DataParam := Some (p\<lparr>Data_Source := Some (TESTING_DIR K)\<rparr>)\<rparr>
          else if inPhase Phase_TRAIN l
          then l\<lparr>DataParam := Some (p\<lparr>Data_Source := Some (TRAINING_DIR K)\<rparr>)\<rparr>
          else l)"
  using assms
  by (simp add: modifyLayer_def phasesRead_def isTrainingPhase_read isTestingPhase_read
        setDataSource_def)

lemma modifyLayer_populated:
  assumes "populated l"
  shows "\<exists>l'. modifyLayer K l = Inr l'"
proof -
  from assms obtain t where t: "Type l = Some t" by (auto simp: populated_def)
  have ph: "phasesRead l" if "t = V1LayerParameter_IMAGE_DATA \<or> t = V1LayerParameter_DATA"
    using assms t that by (auto simp: populated_def)
  show ?thesis
  proof (cases t)
    case V1LayerParameter_IMAGE_DATA
    show ?thesis
    proof (cases "ImageDataParam l")
      case None
      with assms t V1LayerParameter_IMAGE_DATA
      have "\<not> inPhase Phase_TRAIN l" and "\<not> inPhase Phase_TEST l"
        by (auto simp: populated_def)
      with t V1LayerParameter_IMAGE_DATA ph show ?thesis
        by (simp add: modifyLayer_image_unmarked)
    next
      case (Some p)
      with t V1LayerParameter_IMAGE_DATA ph show ?thesis
        by (simp add: modifyLayer_image)
    qed
  next
    case V1LayerParameter_DATA
    show ?thesis
    proof (cases "DataParam l")
      case None
      with assms t V1LayerParameter_DATA
      have "\<not> inPhase Phase_TRAIN l" and "\<not> inPhase Phase_TEST l"
        by (auto simp: populated_def)
      with t V1LayerParameter_DATA ph show ?thesis
        by (simp add: modifyLayer_data_unmarked)
    next
      case (Some p)
      with t V1LayerParameter_DATA ph show ?thesis
        by (simp add: modifyLayer_data)
    qed
  next
    case (V1LayerParameter_other n)
    with t show ?thesis by (simp add: modifyLayer_other)
  qed
qed

lemma modifyLayers_all2:
  "modifyLayers K ls = Inr ls' \<Longrightarrow> list_all2 (\<lambda>l l'. modifyLayer K l = Inr l') ls ls'"
  by (induction ls arbitrary: ls') (auto split: sum.splits)

lemma modifyLayers_total:
  "\<forall>l \<in> set ls. \<exists>l'. modifyLayer K l = Inr l' \<Longrightarrow> \<exists>ls'. modifyLayers K ls = Inr ls'"
  by (induction ls) auto

lemma modifyLayers_populated:
  assumes "\<forall>l \<in> set ls. populated l"
  shows "\<exists>ls'. modifyLayers K ls = Inr ls' \<and> length ls' = length ls
           \<and> (\<forall>i < length ls. modifyLayer K (ls ! i) = Inr (ls' ! i))"
proof -
  from assms have "\<forall>l \<in> set ls. \<exists>l'. modifyLayer K l = Inr l'"
    by (simp add: modifyLayer_populated)
  then obtain ls' where ls': "modifyLayers K ls = Inr ls'"
    using modifyLayers_total by blast
  then have "list_all2 (\<lambda>l l'. modifyLayer K l = Inr l') ls ls'"
    by (rule modifyLayers_all2)
  then have "length ls' = length ls" and "\<forall>i < length ls. modifyLayer K (ls ! i) = Inr (ls' ! i)"
    by (simp_all add: list_all2_conv_all_nth)
  with ls' show ?thesis by blast
qed

lemma modifySolverNetSpec_parsed:
  assumes "UnmarshalText src = Inr netParam" and "modifyLayers K (Layers netParam) = Inr ls'"
  shows "modifySolverNetSpec K UnmarshalText MarshalText src = MarshalText (netParam\<lparr>Layers := ls'\<rparr>)"
  using assms by (simp add: modifySolverNetSpec_def split: sum.splits)

lemma modifyLayer_unpopulated:
  assumes "\<not> populated l"
  shows "modifyLayer K l = Inl (Panicked NilDereference)"
proof (cases "Type l")
  case None
  then show ?thesis by (simp add: modifyLayer_def)
next
  case (Some t)
  show ?thesis
  proof (cases t)
    case (V1LayerParameter_other n)
    with Some assms show ?thesis by (simp add: populated_def)
  next
    case V1LayerParameter_IMAGE_DATA
    note t = Some [unfolded V1LayerParameter_IMAGE_DATA]
    show ?thesis
    proof (cases "\<forall>r \<in> set (markersBefore Phase_TRAIN l). Phase r \<noteq> None")
      case False
      then have "isTrainingPhase l = Inl (Panicked NilDereference)"
        by (simp add: isTrainingPhase_unread)
      with t show ?thesis by (simp add: modifyLayer_def)
    next
      case train: True
      show ?thesis
      proof (cases "inPhase Phase_TRAIN l \<and> ImageDataParam l = None")
        case True
        with t train show ?thesis
          by (simp add: modifyLayer_def isTrainingPhase_read setImageDataSource_def)
      next
        case param: False
        show ?thesis
        proof (cases "\<forall>r \<in> set (markersBefore Phase_TEST l). Phase r \<noteq> None")
          case False
          then have "isTestingPhase l = Inl (Panicked NilDereference)"
            and "\<And>x. isTestingPhase (l\<lparr>ImageDataParam := x\<rparr>) = Inl (Panicked NilDereference)"
            by (simp_all add: isTestingPhase_unread)
          with t train param show ?thesis
            by (auto simp add: modifyLayer_def isTrainingPhase_read setImageDataSource_def)
        next
          case True
          with t train param assms show ?thesis
            by (auto simp add: modifyLayer_def isTrainingPhase_read isTestingPhase_read
                  setImageDataSource_def populated_def phasesRead_def)
        qed
      qed
    qed
  next
    case V1LayerParameter_DATA
    note t = Some [unfolded V1LayerParameter_DATA]
    show ?thesis
    proof (cases "\<forall>r \<in> set (markersBefore Phase_TRAIN l). Phase r \<noteq> None")
      case False
      then have "isTrainingPhase l = Inl (Panicked NilDereference)"
        by (simp add: isTrainingPhase_unread)
      with t show ?thesis by (simp add: modifyLayer_def)
    next
      case train: True
      show ?thesis
      proof (cases "inPhase Phase_TRAIN l \<and> DataParam l = None")
        case True
        with t train show ?thesis
          by (simp add: modifyLayer_def isTrainingPhase_read setDataSource_def)
      next
        case param: False
        show ?thesis
        proof (cases "\<forall>r \<in> set (markersBefore Phase_TEST l). Phase r \<noteq> None")
          case False
          then have "isTestingPhase l = Inl (Panicked NilDereference)"
            and "\<And>x. isTestingPhase (l\<lparr>DataParam := x\<rparr>) = Inl (Panicked NilDereference)"
            by (simp_all add: isTestingPhase_unread)
          with t train param show ?thesis
            by (auto simp add: modifyLayer_def isTrainingPhase_read setDataSource_def)
        next
          case True
          with t train param assms show ?thesis
            by (auto simp add: modifyLayer_def isTrainingPhase_read isTestingPhase_read
                  setDataSource_def populated_def phasesRead_def)
        qed
      qed
    qed
  qed
qed

lemma modifyLayers_unpopulated:
  "\<exists>l \<in> set ls. \<not> populated l \<Longrightarrow> modifyLayers K ls = Inl (Panicked NilDereference)"
proof (induction ls)
  case Nil
  then show ?case by simp
next
  case (Cons l ls)
  show ?case
  proof (cases "populated l")
    case False
    then show ?thesis by (simp add: modifyLayer_unpopulated)
  next
    case True
    then obtain l' where "modifyLayer K l = Inr l'"
      using modifyLayer_populated by blast
    moreover from True Cons.prems have "\<exists>l \<in> set ls. \<not> populated l" by auto
    ultimately show ?thesis using Cons.IH by simp
  qed
qed

lemma modifySolverNetSpec_unpopulated:
  assumes "UnmarshalText src = Inr netParam" and "\<exists>l \<in> set (Layers netParam). \<not> populated l"
  shows "modifySolverNetSpec K UnmarshalText MarshalText src = Inl (Panicked NilDereference)"
  using assms by (simp add: modifySolverNetSpec_def modifyLayers_unpopulated)

lemma modifyLayer_rules:
  assumes pop: "populated l" and res: "modifyLayer K l = Inr l'"
  shows "l' = l\<lparr>ImageDataParam := ImageDataParam l', DataParam := DataParam l'\<rparr>"
    and "Type l \<noteq> Some V1LayerParameter_IMAGE_DATA \<and> Type l \<noteq> Some V1LayerParameter_DATA
           \<longrightarrow> l' = l"
    and "Type l = Some V1LayerParameter_IMAGE_DATA \<and> inPhase Phase_TRAIN l \<and> \<not> inPhase Phase_TEST l
           \<longrightarrow> (\<exists>p. ImageDataParam l = Some p
                  \<and> l' = l\<lparr>ImageDataParam := Some (p\<lparr>ImageData_Source := Some (TRAINING_INDEX K)\<rparr>)\<rparr>)"
    and "Type l = Some V1LayerParameter_IMAGE_DATA \<and> inPhase Phase_TEST l \<and> \<not> inPhase Phase_TRAIN l
           \<longrightarrow> (\<exists>p. ImageDataParam l = Some p
                  \<and> l' = l\<lparr>ImageDataParam := Some (p\<lparr>ImageData_Source := Some (TESTING_INDEX K)\<rparr>)\<rparr>)"
    and "Type l = Some V1LayerParameter_IMAGE_DATA \<and> \<not> inPhase Phase_TRAIN l \<and> \<not> inPhase Phase_TEST l
           \<longrightarrow> l' = l"
proof -
  from pop obtain t where t: "Type l = Some t" by (auto simp: populated_def)
  have ph: "phasesRead l" if "t = V1LayerParameter_IMAGE_DATA \<or> t = V1LayerParameter_DATA"
    using pop t that by (auto simp: populated_def)
  have img: "ImageDataParam l \<noteq> None"
    if "t = V1LayerParameter_IMAGE_DATA" and "inPhase Phase_TRAIN l \<or> inPhase Phase_TEST l"
    using pop t that by (simp add: populated_def)
  have dat: "DataParam l \<noteq> None"
    if "t = V1LayerParameter_DATA" and "inPhase Phase_TRAIN l \<or> inPhase Phase_TEST l"
    using pop t that by (simp add: populated_def)
  consider (other) n where "t = V1LayerParameter_other n"
    | (image_none) "t = V1LayerParameter_IMAGE_DATA" "\<not> inPhase Phase_TRAIN l" "\<not> inPhase Phase_TEST l"
    | (image_some) p where "t = V1LayerParameter_IMAGE_DATA" "ImageDataParam l = Some p"
    | (data_none) "t = V1LayerParameter_DATA" "\<not> inPhase Phase_TRAIN l" "\<not> inPhase Phase_TEST l"
    | (data_some) p where "t = V1LayerParameter_DATA" "DataParam l = Some p"
    using img dat by (cases t) auto
  then have "(l' = l\<lparr>ImageDataParam := ImageDataParam l', DataParam := DataParam l'\<rparr>)
    \<and> (Type l \<noteq> Some V1LayerParameter_IMAGE_DATA \<and> Type l \<noteq> Some V1LayerParameter_DATA
           \<longrightarrow> l' = l)
    \<and> (Type l = Some V1LayerParameter_IMAGE_DATA \<and> inPhase Phase_TRAIN l \<and> \<not> inPhase Phase_TEST l
           \<longrightarrow> (\<exists>p. ImageDataParam l = Some p
                  \<and> l' = l\<lparr>ImageDataParam := Some (p\<lparr>ImageData_Source := Some (TRAINING_INDEX K)\<rparr>)\<rparr>))
    \<and> (Type l = Some V1LayerParameter_IMAGE_DATA \<and> inPhase Phase_TEST l \<and> \<not> inPhase Phase_TRAIN l
           \<longrightarrow> (\<exists>p. ImageDataParam l = Some p
                  \<and> l' = l\<lparr>ImageDataParam := Some (p\<lparr>ImageData_Source := Some (TESTING_INDEX K)\<rparr>)\<rparr>))
    \<and> (Type l = Some V1LayerParameter_IMAGE_DATA \<and> \<not> inPhase Phase_TRAIN l \<and> \<not> inPhase Phase_TEST l
           \<longrightarrow> l' = l)"
  proof cases
    case (other n)
    with t res show ?thesis by (simp add: modifyLayer_other)
  next
    case image_none
    with t ph res show ?thesis by (simp add: modifyLayer_image_unmarked)
  next
    case (image_some p)
    with t ph res show ?thesis by (auto simp add: modifyLayer_image)
  next
    case data_none
    with t ph res show ?thesis by (simp add: modifyLayer_data_unmarked)
  next
    case (data_some p)
    with t ph res show ?thesis by (auto simp add: modifyLayer_data)
  qed
  then show "l' = l\<lparr>ImageDataParam := ImageDataParam l', DataParam := DataParam l'\<rparr>"
    and "Type l \<noteq> Some V1LayerParameter_IMAGE_DATA \<and> Type l \<noteq> Some V1LayerParameter_DATA
           \<longrightarrow> l' = l"
    and "Type l = Some V1LayerParameter_IMAGE_DATA \<and> inPhase Phase_TRAIN l \<and> \<not> inPhase Phase_TEST l
           \<longrightarrow> (\<exists>p. ImageDataParam l = Some p
                  \<and> l' = l\<lparr>ImageDataParam := Some (p\<lparr>ImageData_Source := Some (TRAINING_INDEX K)\<rparr>)\<rparr>)"
    and "Type l = Some V1LayerParameter_IMAGE_DATA \<and> inPhase Phase_TEST l \<and> \<not> inPhase Phase_TRAIN l
           \<longrightarrow> (\<exists>p. ImageDataParam l = Some p
                  \<and> l' = l\<lparr>ImageDataParam := Some (p\<lparr>ImageData_Source := Some (TESTING_INDEX K)\<rparr>)\<rparr>)"
    and "Type l = Some V1LayerParameter_IMAGE_DATA \<and> \<not> inPhase Phase_TRAIN l \<and> \<not> inPhase Phase_TEST l
           \<longrightarrow> l' = l"
    by blast+
qed

lemma modifyLayer_rest:
  assumes pop: "populated l" and res: "modifyLayer K l = Inr l'"
  shows "map_option ImageDataParameter_rest (ImageDataParam l') =
           map_option ImageDataParameter_rest (ImageDataParam l)
         \<and> map_option DataParameter_rest (DataParam l') =
           map_option DataParameter_rest (DataParam l)"
proof -
  from pop obtain t where t: "Type l = Some t" by (auto simp: populated_def)
  have ph: "phasesRead l" if "t = V1LayerParameter_IMAGE_DATA \<or> t = V1LayerParameter_DATA"
    using pop t that by (auto simp: populated_def)
  have img: "ImageDataParam l \<noteq> None"
    if "t = V1LayerParameter_IMAGE_DATA" and "inPhase Phase_TRAIN l \<or> inPhase Phase_TEST l"
    using pop t that by (simp add: populated_def)
  have dat: "DataParam l \<noteq> None"
    if "t = V1LayerParameter_DATA" and "inPhase Phase_TRAIN l \<or> inPhase Phase_TEST l"
    using pop t that by (simp add: populated_def)
  consider (other) n where "t = V1LayerParameter_other n"
    | (image_none) "t = V1LayerParameter_IMAGE_DATA" "\<not> inPhase Phase_TRAIN l" "\<not> inPhase Phase_TEST l"
    | (image_some) p where "t = V1LayerParameter_IMAGE_DATA" "ImageDataParam l = Some p"
    | (data_none) "t = V1LayerParameter_DATA" "\<not> inPhase Phase_TRAIN l" "\<not> inPhase Phase_TEST l"
    | (data_some) p where "t = V1LayerParameter_DATA" "DataParam l = Some p"
    using img dat by (cases t) auto
  then show ?thesis
  proof cases
    case (other n)
    with t res show ?thesis by (simp add: modifyLayer_other)
  next
    case image_none
    with t ph res show ?thesis by (simp add: modifyLayer_image_unmarked)
  next
    case (image_some p)
    with t ph res show ?thesis by (auto simp add: modifyLayer_image)
  next
    case data_none
    with t ph res show ?thesis by (simp add: modifyLayer_data_unmarked)
  next
    case (data_some p)
    with t ph res show ?thesis by (auto simp add: modifyLayer_data)
  qed
qed

text \<open>
  C2 (amended). For a configuration text that parses to a network of populated layers,
  where on a layer of another type than \<open>IMAGE_DATA\<close> and \<open>DATA\<close> nothing but the type is
  asked for, \<open>modifySolverNetSpec\<close> returns what the printer makes of the network with its layers
  replaced by a list of the same length, in which the layer at each position is the
  layer of the input at that position with at most the sources of its two parameter
  messages changed:
  a layer whose type is neither \<open>IMAGE_DATA\<close> nor \<open>DATA\<close> is unchanged; an \<open>IMAGE_DATA\<close> layer
  in the train phase only has the source of its image-data message set to
  \<open>TRAINING_INDEX\<close> and is otherwise unchanged; one in the test phase only gets
  \<open>TESTING_INDEX\<close>; one in neither phase is unchanged. The condition is the weakest one:
  on a network with a layer that is not populated the function panics on a nil pointer.
\<close>

theorem modifySolverNetSpec_layers:
  assumes "UnmarshalText src = Inr netParam"
  shows "((\<forall>l \<in> set (Layers netParam). populated l) \<longrightarrow> (\<exists>layers'.
      modifySolverNetSpec K UnmarshalText MarshalText src = MarshalText (netParam\<lparr>Layers := layers'\<rparr>)
    \<and> length layers' = length (Layers netParam)
    \<and> (\<forall>i < length (Layers netParam).
         layers' ! i = (Layers netParam ! i)\<lparr>ImageDataParam := ImageDataParam (layers' ! i),
                                              DataParam := DataParam (layers' ! i)\<rparr>
       \<and> map_option ImageDataParameter_rest (ImageDataParam (layers' ! i)) =
           map_option ImageDataParameter_rest (ImageDataParam (Layers netParam ! i))
       \<and> map_option DataParameter_rest (DataParam (layers' ! i)) =
           map_option DataParameter_rest (DataParam (Layers netParam ! i))
       \<and> (Type (Layers netParam ! i) \<noteq> Some V1LayerParameter_IMAGE_DATA
            \<and> Type (Layers netParam ! i) \<noteq> Some V1LayerParameter_DATA
           \<longrightarrow> layers' ! i = Layers netParam ! i)
       \<and> (Type (Layers netParam ! i) = Some V1LayerParameter_IMAGE_DATA
            \<and> inPhase Phase_TRAIN (Layers netParam ! i) \<and> \<not> inPhase Phase_TEST (Layers netParam ! i)
           \<longrightarrow> (\<exists>p. ImageDataParam (Layers netParam ! i) = Some p
                  \<and> layers' ! i = (Layers netParam ! i)
                       \<lparr>ImageDataParam := Some (p\<lparr>ImageData_Source := Some (TRAINING_INDEX K)\<rparr>)\<rparr>))
       \<and> (Type (Layers netParam ! i) = Some V1LayerParameter_IMAGE_DATA
            \<and> inPhase Phase_TEST (Layers netParam ! i) \<and> \<not> inPhase Phase_TRAIN (Layers netParam ! i)
           \<longrightarrow> (\<exists>p. ImageDataParam (Layers netParam ! i) = Some p
                  \<and> layers' ! i = (Layers netParam ! i)
                       \<lparr>ImageDataParam := Some (p\<lparr>ImageData_Source := Some (TESTING_INDEX K)\<rparr>)\<rparr>))
       \<and> (Type (Layers netParam ! i) = Some V1LayerParameter_IMAGE_DATA
            \<and> \<not> inPhase Phase_TRAIN (Layers netParam ! i) \<and> \<not> inPhase Phase_TEST (Layers netParam ! i)
           \<longrightarrow> layers' ! i = Layers netParam ! i))))
    \<and> ((\<exists>l \<in> set (Layers netParam). \<not> populated l) \<longrightarrow>
         modifySolverNetSpec K UnmarshalText MarshalText src = Inl (Panicked NilDereference))"
    (is "(?populated \<longrightarrow> ?rewritten) \<and> (?unpopulated \<longrightarrow> ?panics)")
proof (intro conjI impI)
  assume ?unpopulated
  with assms show ?panics by (rule modifySolverNetSpec_unpopulated)
next
  assume pop: ?populated
  from pop obtain ls' where ls': "modifyLayers K (Layers netParam) = Inr ls'"
    and len: "length ls' = length (Layers netParam)"
    and each: "\<forall>i < length (Layers netParam). modifyLayer K (Layers netParam ! i) = Inr (ls' ! i)"
    using modifyLayers_populated by blast
  have out: "modifySolverNetSpec K UnmarshalText MarshalText src =
      MarshalText (netParam\<lparr>Layers := ls'\<rparr>)"
    using assms ls' by (rule modifySolverNetSpec_parsed)
  have "populated (Layers netParam ! i)" if "i < length (Layers netParam)" for i
    using pop that by simp
  then have rules: "\<forall>i < length (Layers netParam).
         ls' ! i = (Layers netParam ! i)\<lparr>ImageDataParam := ImageDataParam (ls' ! i),
                                          DataParam := DataParam (ls' ! i)\<rparr>
       \<and> map_option ImageDataParameter_rest (ImageDataParam (ls' ! i)) =
           map_option ImageDataParameter_rest (ImageDataParam (Layers netParam ! i))
       \<and> map_option DataParameter_rest (DataParam (ls' ! i)) =
           map_option DataParameter_rest (DataParam (Layers netParam ! i))
       \<and> (Type (Layers netParam ! i) \<noteq> Some V1LayerParameter_IMAGE_DATA
            \<and> Type (Layers netParam ! i) \<noteq> Some V1LayerParameter_DATA
           \<longrightarrow> ls' ! i = Layers netParam ! i)
       \<and> (Type (Layers netParam ! i) = Some V1LayerParameter_IMAGE_DATA
            \<and> inPhase Phase_TRAIN (Layers netParam ! i) \<and> \<not> inPhase Phase_TEST (Layers netParam ! i)
           \<longrightarrow> (\<exists>p. ImageDataParam (Layers netParam ! i) = Some p
                  \<and> ls' ! i = (Layers netParam ! i)
                       \<lparr>ImageDataParam := Some (p\<lparr>ImageData_Source := Some (TRAINING_INDEX K)\<rparr>)\<rparr>))
       \<and> (Type (Layers netParam ! i) = Some V1LayerParameter_IMAGE_DATA
            \<and> inPhase Phase_TEST (Layers netParam ! i) \<and> \<not> inPhase Phase_TRAIN (Layers netParam ! i)
           \<longrightarrow> (\<exists>p. ImageDataParam (Layers netParam ! i) = Some p
                  \<and> ls' ! i = (Layers netParam ! i)
                       \<lparr>ImageDataParam := Some (p\<lparr>ImageData_Source := Some (TESTING_INDEX K)\<rparr>)\<rparr>))
       \<and> (Type (Layers netParam ! i) = Some V1LayerParameter_IMAGE_DATA
            \<and> \<not> inPhase Phase_TRAIN (Layers netParam ! i) \<and> \<not> inPhase Phase_TEST (Layers netParam ! i)
           \<longrightarrow> ls' ! i = Layers netParam ! i)"
    using each modifyLayer_rules [of "Layers netParam ! i" K "ls' ! i" for i]
      modifyLayer_rest [of "Layers netParam ! i" K "ls' ! i" for i]
    by blast
  from out len rules show ?rewritten by blast
qed


theorem modifySolverNetSpec_layers_witness:
  "(\<exists>layers'.
     modifySolverNetSpec exampleConstants
       (parsesTo (exampleNet
          [exampleLayer (Some (V1LayerParameter_other 4)) [None] None None,
           exampleLayer (Some V1LayerParameter_IMAGE_DATA) [Some Phase_TRAIN] (Some ''a.txt'') None,
           exampleLayer (Some V1LayerParameter_IMAGE_DATA) [Some Phase_TEST] (Some ''b.txt'') None,
           exampleLayer (Some V1LayerParameter_IMAGE_DATA) [] (Some ''c.txt'') None]))
       printSources ''layers { }'' =
     printSources (exampleNet layers')
   \<and> layers' =
       [exampleLayer (Some (V1LayerParameter_other 4)) [None] None None,
        exampleLayer (Some V1LayerParameter_IMAGE_DATA) [Some Phase_TRAIN] (Some ''training.txt'') None,
        exampleLayer (Some V1LayerParameter_IMAGE_DATA) [Some Phase_TEST] (Some ''testing.txt'') None,
        exampleLayer (Some V1LayerParameter_IMAGE_DATA) [] (Some ''c.txt'') None])
   \<and> modifySolverNetSpec exampleConstants
       (parsesTo (exampleNet
          [exampleLayer (Some (V1LayerParameter_other 4)) [None] None None,
           exampleLayer (Some V1LayerParameter_DATA) [Some Phase_TEST, None] None None]))
       printSources ''layers { }'' =
     Inl (Panicked NilDereference)"
proof -
  let ?L = "[exampleLayer (Some (V1LayerParameter_other 4)) [None] None None,
           exampleLayer (Some V1LayerParameter_IMAGE_DATA) [Some Phase_TRAIN] (Some ''a.txt'') None,
           exampleLayer (Some V1LayerParameter_IMAGE_DATA) [Some Phase_TEST] (Some ''b.txt'') None,
           exampleLayer (Some V1LayerParameter_IMAGE_DATA) [] (Some ''c.txt'') None]"
  let ?M = "[exampleLayer (Some (V1LayerParameter_other 4)) [None] None None,
           exampleLayer (Some V1LayerParameter_DATA) [Some Phase_TEST, None] None None]"
  have parsed: "parsesTo (exampleNet ?L) ''layers { }'' = Inr (exampleNet ?L)"
    by (simp add: parsesTo_def)
  have pop: "\<forall>l \<in> set (Layers (exampleNet ?L)). populated l"
    by (simp add: exampleNet_def exampleLayer_def populated_def phasesRead_def markersBefore_def
          inPhase_def includeRule_def)
  note inst = modifySolverNetSpec_layers
         [where UnmarshalText = "parsesTo (exampleNet ?L)" and src = "''layers { }''"
            and netParam = "exampleNet ?L" and K = exampleConstants
            and MarshalText = printSources, OF parsed]
  from inst [THEN conjunct1, THEN mp, OF pop]
  obtain layers' where
    out: "modifySolverNetSpec exampleConstants (parsesTo (exampleNet ?L)) printSources ''layers { }'' =
          printSources (exampleNet ?L\<lparr>Layers := layers'\<rparr>)"
    and len: "length layers' = 4"
    and l0: "layers' ! 0 = ?L ! 0"
    and l1: "layers' ! 1 =
        exampleLayer (Some V1LayerParameter_IMAGE_DATA) [Some Phase_TRAIN] (Some ''training.txt'') None"
    and l2: "layers' ! 2 =
        exampleLayer (Some V1LayerParameter_IMAGE_DATA) [Some Phase_TEST] (Some ''testing.txt'') None"
    and l3: "layers' ! 3 = ?L ! 3"
    by (auto simp: exampleNet_def exampleLayer_def exampleConstants_def inPhase_def includeRule_def
          eval_nat_numeral less_Suc_eq all_conj_distrib imp_conjR)
  from len l0 l1 l2 l3 have "layers' = [?L ! 0,
        exampleLayer (Some V1LayerParameter_IMAGE_DATA) [Some Phase_TRAIN] (Some ''training.txt'') None,
        exampleLayer (Some V1LayerParameter_IMAGE_DATA) [Some Phase_TEST] (Some ''testing.txt'') None,
        ?L ! 3]"
    by (intro nth_equalityI) (auto simp: less_Suc_eq eval_nat_numeral)
  with out have rewritten: "\<exists>layers'.
     modifySolverNetSpec exampleConstants (parsesTo (exampleNet ?L)) printSources ''layers { }'' =
     printSources (exampleNet layers')
   \<and> layers' =
       [exampleLayer (Some (V1LayerParameter_other 4)) [None] None None,
        exampleLayer (Some V1LayerParameter_IMAGE_DATA) [Some Phase_TRAIN] (Some ''training.txt'') None,
        exampleLayer (Some V1LayerParameter_IMAGE_DATA) [Some Phase_TEST] (Some ''testing.txt'') None,
        exampleLayer (Some V1LayerParameter_IMAGE_DATA) [] (Some ''c.txt'') None]"
    by (auto simp: exampleNet_def)
  have parsed': "parsesTo (exampleNet ?M) ''layers { }'' = Inr (exampleNet ?M)"
    by (simp add: parsesTo_def)
  have unpop: "\<exists>l \<in> set (Layers (exampleNet ?M)). \<not> populated l"
    by (simp add: exampleNet_def exampleLayer_def populated_def phasesRead_def markersBefore_def
          inPhase_def includeRule_def)
  note inst' = modifySolverNetSpec_layers
         [where UnmarshalText = "parsesTo (exampleNet ?M)" and src = "''layers { }''"
            and netParam = "exampleNet ?M" and K = exampleConstants
            and MarshalText = printSources, OF parsed']
  from inst' [THEN conjunct2, THEN mp, OF unpop]
  have panics: "modifySolverNetSpec exampleConstants (parsesTo (exampleNet ?M)) printSources
      ''layers { }'' = Inl (Panicked NilDereference)" .
  from rewritten panics show ?thesis by (rule conjI)
qed

text \<open>
  Without the condition the statement fails. On a network with a layer that has no type,
  \<open>*layerParam.Type\<close> dereferences a nil pointer and no layer is produced. An \<open>IMAGE_DATA\<close>
  layer whose one include marker has no phase is in neither phase, and
  \<open>*includedPhase.Phase\<close> dereferences a nil pointer. An \<open>IMAGE_DATA\<close> layer in the train phase
  only that has no image-data message has no source to set, and
  \<open>layerParam.ImageDataParam.Source\<close> dereferences a nil pointer.
\<close>

theorem modifySolverNetSpec_layers_counterexample:
  "modifySolverNetSpec exampleConstants
     (parsesTo (exampleNet [exampleLayer None [] None None])) printSources ''layers { }'' =
   Inl (Panicked NilDereference)
   \<and> \<not> inPhase Phase_TRAIN (exampleLayer (Some V1LayerParameter_IMAGE_DATA) [None] (Some ''a.txt'') None)
   \<and> \<not> inPhase Phase_TEST (exampleLayer (Some V1LayerParameter_IMAGE_DATA) [None] (Some ''a.txt'') None)
   \<and> modifySolverNetSpec exampleConstants
       (parsesTo (exampleNet
          [exampleLayer (Some V1LayerParameter_IMAGE_DATA) [None] (Some ''a.txt'') None]))
       printSources ''layers { }'' =
     Inl (Panicked NilDereference)
   \<and> inPhase Phase_TRAIN (exampleLayer (Some V1LayerParameter_IMAGE_DATA) [Some Phase_TRAIN] None None)
   \<and> \<not> inPhase Phase_TEST (exampleLayer (Some V1LayerParameter_IMAGE_DATA) [Some Phase_TRAIN] None None)
   \<and> modifySolverNetSpec exampleConstants
       (parsesTo (exampleNet
          [exampleLayer (Some V1LayerParameter_IMAGE_DATA) [Some Phase_TRAIN] None None]))
       printSources ''layers { }'' =
     Inl (Panicked NilDereference)"
  by (simp add: modifySolverNetSpec_def parsesTo_def exampleNet_def exampleLayer_def
        modifyLayer_def isTrainingPhase_def setImageDataSource_def includeRule_def inPhase_def)

lemma modifyLayer_dual_image:
  assumes "Type l = Some V1LayerParameter_IMAGE_DATA"
    and "phasesRead l"
    and "inPhase Phase_TRAIN l" and "inPhase Phase_TEST l"
    and "ImageDataParam l = Some p"
    and "modifyLayer K l = Inr l'"
  shows "\<exists>l1. setImageDataSource (TRAINING_INDEX K) l = Inr l1
           \<and> ImageDataParam l1 = Some (p\<lparr>ImageData_Source := Some (TRAINING_INDEX K)\<rparr>)
           \<and> setImageDataSource (TESTING_INDEX K) l1 = Inr l'
           \<and> l' = l\<lparr>ImageDataParam := Some (p\<lparr>ImageData_Source := Some (TESTING_INDEX K)\<rparr>)\<rparr>"
  using assms by (simp add: modifyLayer_image setImageDataSource_def)

lemma modifyLayer_dual_data:
  assumes "Type l = Some V1LayerParameter_DATA"
    and "phasesRead l"
    and "inPhase Phase_TRAIN l" and "inPhase Phase_TEST l"
    and "DataParam l = Some p"
    and "modifyLayer K l = Inr l'"
  shows "\<exists>l1. setDataSource (TRAINING_DIR K) l = Inr l1
           \<and> DataParam l1 = Some (p\<lparr>Data_Source := Some (TRAINING_DIR K)\<rparr>)
           \<and> setDataSource (TESTING_DIR K) l1 = Inr l'
           \<and> l' = l\<lparr>DataParam := Some (p\<lparr>Data_Source := Some (TESTING_DIR K)\<rparr>)\<rparr>"
  using assms by (simp add: modifyLayer_data setDataSource_def)

text \<open>
  C10 (amended). For a configuration text that parses to a network of populated layers,
  a layer of type \<open>IMAGE_DATA\<close> that is in the train phase and in the test phase leaves
  \<open>modifySolverNetSpec\<close> with the source of its image-data message equal to
  \<open>TESTING_INDEX\<close>: the assignment of \<open>TRAINING_INDEX\<close> is made first, on the layer of the
  input, and the assignment of \<open>TESTING_INDEX\<close> is made on its result. In the same way a
  layer of type \<open>DATA\<close> in both phases ends with the source \<open>TESTING_DIR\<close>. A layer in both
  phases is populated when the markers before its first \<open>TRAIN\<close> marker and before its
  first \<open>TEST\<close> marker name a phase and it has its parameter message. On a network with a
  layer that is not populated the function panics on a nil pointer.
\<close>

theorem modifySolverNetSpec_dual_phase:
  assumes "UnmarshalText src = Inr netParam"
  shows "((\<forall>l \<in> set (Layers netParam). populated l) \<longrightarrow> (\<exists>layers'.
      modifySolverNetSpec K UnmarshalText MarshalText src = MarshalText (netParam\<lparr>Layers := layers'\<rparr>)
    \<and> length layers' = length (Layers netParam)
    \<and> (\<forall>i < length (Layers netParam).
         (Type (Layers netParam ! i) = Some V1LayerParameter_IMAGE_DATA
            \<and> inPhase Phase_TRAIN (Layers netParam ! i) \<and> inPhase Phase_TEST (Layers netParam ! i)
           \<longrightarrow> (\<exists>p l1. ImageDataParam (Layers netParam ! i) = Some p
                  \<and> setImageDataSource (TRAINING_INDEX K) (Layers netParam ! i) = Inr l1
                  \<and> ImageDataParam l1 = Some (p\<lparr>ImageData_Source := Some (TRAINING_INDEX K)\<rparr>)
                  \<and> setImageDataSource (TESTING_INDEX K) l1 = Inr (layers' ! i)
                  \<and> layers' ! i = (Layers netParam ! i)
                       \<lparr>ImageDataParam := Some (p\<lparr>ImageData_Source := Some (TESTING_INDEX K)\<rparr>)\<rparr>))
       \<and> (Type (Layers netParam ! i) = Some V1LayerParameter_DATA
            \<and> inPhase Phase_TRAIN (Layers netParam ! i) \<and> inPhase Phase_TEST (Layers netParam ! i)
           \<longrightarrow> (\<exists>p l1. DataParam (Layers netParam ! i) = Some p
                  \<and> setDataSource (TRAINING_DIR K) (Layers netParam ! i) = Inr l1
                  \<and> DataParam l1 = Some (p\<lparr>Data_Source := Some (TRAINING_DIR K)\<rparr>)
                  \<and> setDataSource (TESTING_DIR K) l1 = Inr (layers' ! i)
                  \<and> layers' ! i = (Layers netParam ! i)
                       \<lparr>DataParam := Some (p\<lparr>Data_Source := Some (TESTING_DIR K)\<rparr>)\<rparr>)))))
    \<and> ((\<exists>l \<in> set (Layers netParam). \<not> populated l) \<longrightarrow>
         modifySolverNetSpec K UnmarshalText MarshalText src = Inl (Panicked NilDereference))"
    (is "(?populated \<longrightarrow> ?rewritten) \<and> (?unpopulated \<longrightarrow> ?panics)")
proof (intro conjI impI)
  assume ?unpopulated
  with assms show ?panics by (rule modifySolverNetSpec_unpopulated)
next
  assume pop: ?populated
  from pop obtain ls' where ls': "modifyLayers K (Layers netParam) = Inr ls'"
    and len: "length ls' = length (Layers netParam)"
    and each: "\<forall>i < length (Layers netParam). modifyLayer K (Layers netParam ! i) = Inr (ls' ! i)"
    using modifyLayers_populated by blast
  have out: "modifySolverNetSpec K UnmarshalText MarshalText src =
      MarshalText (netParam\<lparr>Layers := ls'\<rparr>)"
    using assms ls' by (rule modifySolverNetSpec_parsed)
  have image: "\<exists>p l1. ImageDataParam (Layers netParam ! i) = Some p
                  \<and> setImageDataSource (TRAINING_INDEX K) (Layers netParam ! i) = Inr l1
                  \<and> ImageDataParam l1 = Some (p\<lparr>ImageData_Source := Some (TRAINING_INDEX K)\<rparr>)
                  \<and> setImageDataSource (TESTING_INDEX K) l1 = Inr (ls' ! i)
                  \<and> ls' ! i = (Layers netParam ! i)
                       \<lparr>ImageDataParam := Some (p\<lparr>ImageData_Source := Some (TESTING_INDEX K)\<rparr>)\<rparr>"
    if i: "i < length (Layers netParam)"
      and t: "Type (Layers netParam ! i) = Some V1LayerParameter_IMAGE_DATA"
      and tr: "inPhase Phase_TRAIN (Layers netParam ! i)"
      and te: "inPhase Phase_TEST (Layers netParam ! i)" for i
  proof -
    from pop i have popi: "populated (Layers netParam ! i)" by simp
    with t have ph: "phasesRead (Layers netParam ! i)"
      by (simp add: populated_def)
    from popi t tr obtain p where p: "ImageDataParam (Layers netParam ! i) = Some p"
      by (auto simp: populated_def)
    from each i have "modifyLayer K (Layers netParam ! i) = Inr (ls' ! i)" by simp
    with modifyLayer_dual_image [OF t ph tr te p] p show ?thesis by blast
  qed
  have data: "\<exists>p l1. DataParam (Layers netParam ! i) = Some p
                  \<and> setDataSource (TRAINING_DIR K) (Layers netParam ! i) = Inr l1
                  \<and> DataParam l1 = Some (p\<lparr>Data_Source := Some (TRAINING_DIR K)\<rparr>)
                  \<and> setDataSource (TESTING_DIR K) l1 = Inr (ls' ! i)
                  \<and> ls' ! i = (Layers netParam ! i)
                       \<lparr>DataParam := Some (p\<lparr>Data_Source := Some (TESTING_DIR K)\<rparr>)\<rparr>"
    if i: "i < length (Layers netParam)"
      and t: "Type (Layers netParam ! i) = Some V1LayerParameter_DATA"
      and tr: "inPhase Phase_TRAIN (Layers netParam ! i)"
      and te: "inPhase Phase_TEST (Layers netParam ! i)" for i
  proof -
    from pop i have popi: "populated (Layers netParam ! i)" by simp
    with t have ph: "phasesRead (Layers netParam ! i)"
      by (simp add: populated_def)
    from popi t tr obtain p where p: "DataParam (Layers netParam ! i) = Some p"
      by (auto simp: populated_def)
    from each i have "modifyLayer K (Layers netParam ! i) = Inr (ls' ! i)" by simp
    with modifyLayer_dual_data [OF t ph tr te p] p show ?thesis by blast
  qed
  from out len image data show ?rewritten by blast
qed

theorem modifySolverNetSpec_dual_phase_witness:
  "(\<exists>layers'.
     modifySolverNetSpec exampleConstants
       (parsesTo (exampleNet
          [exampleLayer (Some V1LayerParameter_IMAGE_DATA) [Some Phase_TRAIN, Some Phase_TEST, None]
             (Some ''a.txt'') None,
           exampleLayer (Some V1LayerParameter_DATA) [Some Phase_TEST, Some Phase_TRAIN]
             None (Some ''b'')]))
       printSources ''layers { }'' =
     printSources (exampleNet layers')
   \<and> layers' =
       [exampleLayer (Some V1LayerParameter_IMAGE_DATA) [Some Phase_TRAIN, Some Phase_TEST, None]
          (Some ''testing.txt'') None,
        exampleLayer (Some V1LayerParameter_DATA) [Some Phase_TEST, Some Phase_TRAIN]
          None (Some ''testing-data'')])
   \<and> modifySolverNetSpec exampleConstants
       (parsesTo (exampleNet
          [exampleLayer (Some V1LayerParameter_IMAGE_DATA) [Some Phase_TEST, None, Some Phase_TRAIN]
             (Some ''a.txt'') None]))
       printSources ''layers { }'' =
     Inl (Panicked NilDereference)"
proof -
  let ?L = "[exampleLayer (Some V1LayerParameter_IMAGE_DATA) [Some Phase_TRAIN, Some Phase_TEST, None]
             (Some ''a.txt'') None,
           exampleLayer (Some V1LayerParameter_DATA) [Some Phase_TEST, Some Phase_TRAIN]
             None (Some ''b'')]"
  let ?M = "[exampleLayer (Some V1LayerParameter_IMAGE_DATA) [Some Phase_TEST, None, Some Phase_TRAIN]
             (Some ''a.txt'') None]"
  have parsed: "parsesTo (exampleNet ?L) ''layers { }'' = Inr (exampleNet ?L)"
    by (simp add: parsesTo_def)
  have pop: "\<forall>l \<in> set (Layers (exampleNet ?L)). populated l"
    by (simp add: exampleNet_def exampleLayer_def populated_def phasesRead_def markersBefore_def
          inPhase_def includeRule_def)
  note inst = modifySolverNetSpec_dual_phase
         [where UnmarshalText = "parsesTo (exampleNet ?L)" and src = "''layers { }''"
            and netParam = "exampleNet ?L" and K = exampleConstants
            and MarshalText = printSources, OF parsed]
  from inst [THEN conjunct1, THEN mp, OF pop]
  obtain layers' where
    out: "modifySolverNetSpec exampleConstants (parsesTo (exampleNet ?L)) printSources ''layers { }'' =
          printSources (exampleNet ?L\<lparr>Layers := layers'\<rparr>)"
    and len: "length layers' = 2"
    and l0: "layers' ! 0 =
        exampleLayer (Some V1LayerParameter_IMAGE_DATA) [Some Phase_TRAIN, Some Phase_TEST, None]
          (Some ''testing.txt'') None"
    and l1: "layers' ! 1 =
        exampleLayer (Some V1LayerParameter_DATA) [Some Phase_TEST, Some Phase_TRAIN]
          None (Some ''testing-data'')"
    by (auto simp: exampleNet_def exampleLayer_def exampleConstants_def inPhase_def includeRule_def
          eval_nat_numeral less_Suc_eq all_conj_distrib imp_conjR)
  from len l0 l1 have "layers' =
       [exampleLayer (Some V1LayerParameter_IMAGE_DATA) [Some Phase_TRAIN, Some Phase_TEST, None]
          (Some ''testing.txt'') None,
        exampleLayer (Some V1LayerParameter_DATA) [Some Phase_TEST, Some Phase_TRAIN]
          None (Some ''testing-data'')]"
    by (intro nth_equalityI) (auto simp: less_Suc_eq eval_nat_numeral)
  with out have rewritten: "\<exists>layers'.
     modifySolverNetSpec exampleConstants (parsesTo (exampleNet ?L)) printSources ''layers { }'' =
     printSources (exampleNet layers')
   \<and> layers' =
       [exampleLayer (Some V1LayerParameter_IMAGE_DATA) [Some Phase_TRAIN, Some Phase_TEST, None]
          (Some ''testing.txt'') None,
        exampleLayer (Some V1LayerParameter_DATA) [Some Phase_TEST, Some Phase_TRAIN]
          None (Some ''testing-data'')]"
    by (auto simp: exampleNet_def)
  have parsed': "parsesTo (exampleNet ?M) ''layers { }'' = Inr (exampleNet ?M)"
    by (simp add: parsesTo_def)
  have unpop: "\<exists>l \<in> set (Layers (exampleNet ?M)). \<not> populated l"
    by (simp add: exampleNet_def exampleLayer_def populated_def phasesRead_def markersBefore_def
          inPhase_def includeRule_def)
  note inst' = modifySolverNetSpec_dual_phase
         [where UnmarshalText = "parsesTo (exampleNet ?M)" and src = "''layers { }''"
            and netParam = "exampleNet ?M" and K = exampleConstants
            and MarshalText = printSources, OF parsed']
  from inst' [THEN conjunct2, THEN mp, OF unpop]
  have panics: "modifySolverNetSpec exampleConstants (parsesTo (exampleNet ?M)) printSources
      ''layers { }'' = Inl (Panicked NilDereference)" .
  from rewritten panics show ?thesis by (rule conjI)
qed

text \<open>
  Without the condition the statement fails. An \<open>IMAGE_DATA\<close> layer with a source whose
  include markers are one without a phase, one for the train phase and one for the test
  phase is in both phases, and \<open>isTrainingPhase\<close> dereferences the nil phase of the first
  marker. An \<open>IMAGE_DATA\<close> layer in both phases that has no image-data message has no
  source to set, and the assignment for the train phase dereferences a nil pointer.
\<close>

theorem modifySolverNetSpec_dual_phase_counterexample:
  "Type (exampleLayer (Some V1LayerParameter_IMAGE_DATA) [None, Some Phase_TRAIN, Some Phase_TEST]
           (Some ''a.txt'') None) = Some V1LayerParameter_IMAGE_DATA
   \<and> inPhase Phase_TRAIN
       (exampleLayer (Some V1LayerParameter_IMAGE_DATA) [None, Some Phase_TRAIN, Some Phase_TEST]
          (Some ''a.txt'') None)
   \<and> inPhase Phase_TEST
       (exampleLayer (Some V1LayerParameter_IMAGE_DATA) [None, Some Phase_TRAIN, Some Phase_TEST]
          (Some ''a.txt'') None)
   \<and> modifySolverNetSpec exampleConstants
       (parsesTo (exampleNet
          [exampleLayer (Some V1LayerParameter_IMAGE_DATA) [None, Some Phase_TRAIN, Some Phase_TEST]
             (Some ''a.txt'') None]))
       printSources ''layers { }'' =
     Inl (Panicked NilDereference)
   \<and> inPhase Phase_TRAIN
       (exampleLayer (Some V1LayerParameter_IMAGE_DATA) [Some Phase_TRAIN, Some Phase_TEST] None None)
   \<and> inPhase Phase_TEST
       (exampleLayer (Some V1LayerParameter_IMAGE_DATA) [Some Phase_TRAIN, Some Phase_TEST] None None)
   \<and> modifySolverNetSpec exampleConstants
       (parsesTo (exampleNet
          [exampleLayer (Some V1LayerParameter_IMAGE_DATA) [Some Phase_TRAIN, Some Phase_TEST]
             None None]))
       printSources ''layers { }'' =
     Inl (Panicked NilDereference)"
  by (simp add: modifySolverNetSpec_def parsesTo_def exampleNet_def exampleLayer_def
        modifyLayer_def isTrainingPhase_def setImageDataSource_def includeRule_def inPhase_def)

section \<open>Rewriting the solver configuration\<close>

text \<open>
  C3 (amended). For a configuration text that parses to a solver message,
  \<open>modifySolverSpec\<close> returns what the printer makes of a message whose field \<open>net\<close> is
  \<open>solver-net.prototxt\<close>, whose field \<open>snapshot_prefix\<close> is \<open>snapshot\<close> and whose other fields
  are those of the parsed message. The result depends on the text through the parsed
  message only: every text that parses to the same message is taken to the same result.
  With a codec that reads back the text that it prints for that message, the text that
  is returned parses to that message.
\<close>

theorem modifySolverSpec_fields:
  assumes "UnmarshalText source = Inr solverParam"
  shows "\<exists>solverParam'.
      modifySolverSpec UnmarshalText MarshalText source = MarshalText solverParam'
    \<and> Net solverParam' = Some ''solver-net.prototxt''
    \<and> SnapshotPrefix solverParam' = Some ''snapshot''
    \<and> SolverParameter_rest solverParam' = SolverParameter_rest solverParam
    \<and> solverParam'\<lparr>Net := Net solverParam, SnapshotPrefix := SnapshotPrefix solverParam\<rparr> = solverParam
    \<and> (\<forall>source'. UnmarshalText source' = Inr solverParam \<longrightarrow>
           modifySolverSpec UnmarshalText MarshalText source' =
           modifySolverSpec UnmarshalText MarshalText source)
    \<and> ((\<forall>buf. MarshalText solverParam' = Inr buf \<longrightarrow> UnmarshalText buf = Inr solverParam') \<longrightarrow>
         (\<forall>buf. modifySolverSpec UnmarshalText MarshalText source = Inr buf \<longrightarrow>
            UnmarshalText buf = Inr solverParam'))"
proof -
  let ?m = "solverParam\<lparr>Net := Some ''solver-net.prototxt'', SnapshotPrefix := Some ''snapshot''\<rparr>"
  have out: "modifySolverSpec UnmarshalText MarshalText input = MarshalText ?m"
    if "UnmarshalText input = Inr solverParam" for input
    using that by (simp add: modifySolverSpec_def split: sum.splits)
  have same: "\<forall>source'. UnmarshalText source' = Inr solverParam \<longrightarrow>
           modifySolverSpec UnmarshalText MarshalText source' =
           modifySolverSpec UnmarshalText MarshalText source"
  proof (intro allI impI)
    fix source'
    assume "UnmarshalText source' = Inr solverParam"
    then have "modifySolverSpec UnmarshalText MarshalText source' = MarshalText ?m" by (rule out)
    also have "MarshalText ?m = modifySolverSpec UnmarshalText MarshalText source"
      using out [OF assms] by (rule sym)
    finally show "modifySolverSpec UnmarshalText MarshalText source' =
           modifySolverSpec UnmarshalText MarshalText source" .
  qed
  have reread: "(\<forall>buf. MarshalText ?m = Inr buf \<longrightarrow> UnmarshalText buf = Inr ?m) \<longrightarrow>
         (\<forall>buf. modifySolverSpec UnmarshalText MarshalText source = Inr buf \<longrightarrow>
            UnmarshalText buf = Inr ?m)"
    by (simp only: out [OF assms]) simp
  have net: "Net ?m = Some ''solver-net.prototxt''"
    and snapshot: "SnapshotPrefix ?m = Some ''snapshot''"
    and rest: "SolverParameter_rest ?m = SolverParameter_rest solverParam"
    and others: "?m\<lparr>Net := Net solverParam, SnapshotPrefix := SnapshotPrefix solverParam\<rparr> = solverParam"
    by simp_all
  from out [OF assms] net snapshot rest others same reread show ?thesis
    by (intro exI [of _ ?m] conjI) assumption+
qed

lemma readSolverText_lenet:
  "readSolverText lenetSolverText =
     Inr \<lparr>Net = Some ''examples/mnist/lenet_train_test.prototxt'',
          SnapshotPrefix = Some ''examples/mnist/lenet'',
          SolverParameter_rest = \<lparr>LrPolicy = Some ''inv''\<rparr>\<rparr>"
  by code_simp

lemma readSolverText_plain:
  "readSolverText plainSolverText =
     Inr \<lparr>Net = Some ''examples/mnist/lenet_train_test.prototxt'',
          SnapshotPrefix = Some ''examples/mnist/lenet'',
          SolverParameter_rest = \<lparr>LrPolicy = Some ''inv''\<rparr>\<rparr>"
  by code_simp

lemma writeSolverText_rewritten:
  "writeSolverText \<lparr>Net = Some ''solver-net.prototxt'', SnapshotPrefix = Some ''snapshot'',
                     SolverParameter_rest = \<lparr>LrPolicy = Some ''inv''\<rparr>\<rparr> =
   Inr rewrittenSolverText"
  by code_simp

lemma readSolverText_rewritten:
  "readSolverText rewrittenSolverText =
     Inr \<lparr>Net = Some ''solver-net.prototxt'', SnapshotPrefix = Some ''snapshot'',
          SolverParameter_rest = \<lparr>LrPolicy = Some ''inv''\<rparr>\<rparr>"
  by code_simp

theorem modifySolverSpec_fields_witness:
  "modifySolverSpec readSolverText writeSolverText lenetSolverText = Inr rewrittenSolverText
   \<and> modifySolverSpec readSolverText writeSolverText plainSolverText = Inr rewrittenSolverText
   \<and> readSolverText rewrittenSolverText =
       Inr \<lparr>Net = Some ''solver-net.prototxt'', SnapshotPrefix = Some ''snapshot'',
            SolverParameter_rest = \<lparr>LrPolicy = Some ''inv''\<rparr>\<rparr>"
proof -
  let ?lenet = "\<lparr>Net = Some ''examples/mnist/lenet_train_test.prototxt'',
                 SnapshotPrefix = Some ''examples/mnist/lenet'',
                 SolverParameter_rest = \<lparr>LrPolicy = Some ''inv''\<rparr>\<rparr>"
  let ?m = "\<lparr>Net = Some ''solver-net.prototxt'', SnapshotPrefix = Some ''snapshot'',
             SolverParameter_rest = \<lparr>LrPolicy = Some ''inv''\<rparr>\<rparr>"
  from modifySolverSpec_fields
         [where UnmarshalText = readSolverText and MarshalText = writeSolverText,
          OF readSolverText_lenet]
  obtain sp where out: "modifySolverSpec readSolverText writeSolverText lenetSolverText =
        writeSolverText sp"
    and net: "Net sp = Some ''solver-net.prototxt''"
    and snapshot: "SnapshotPrefix sp = Some ''snapshot''"
    and rest: "SolverParameter_rest sp = SolverParameter_rest ?lenet"
    and others: "sp\<lparr>Net := Net ?lenet, SnapshotPrefix := SnapshotPrefix ?lenet\<rparr> = ?lenet"
    and same: "\<forall>source'. readSolverText source' = Inr ?lenet \<longrightarrow>
          modifySolverSpec readSolverText writeSolverText source' =
          modifySolverSpec readSolverText writeSolverText lenetSolverText"
    and reread: "(\<forall>buf. writeSolverText sp = Inr buf \<longrightarrow> readSolverText buf = Inr sp) \<longrightarrow>
         (\<forall>buf. modifySolverSpec readSolverText writeSolverText lenetSolverText = Inr buf \<longrightarrow>
            readSolverText buf = Inr sp)"
    by (elim exE conjE) (rule that, assumption+)
  from net snapshot rest have sp: "sp = ?m" by (cases sp) simp
  from out have one: "modifySolverSpec readSolverText writeSolverText lenetSolverText =
      Inr rewrittenSolverText"
    by (simp only: sp writeSolverText_rewritten)
  from same [THEN spec, THEN mp, OF readSolverText_plain]
  have "modifySolverSpec readSolverText writeSolverText plainSolverText =
        modifySolverSpec readSolverText writeSolverText lenetSolverText" .
  then have two: "modifySolverSpec readSolverText writeSolverText plainSolverText =
      Inr rewrittenSolverText"
    by (simp only: one)
  have "\<forall>buf. writeSolverText sp = Inr buf \<longrightarrow> readSolverText buf = Inr sp"
    by (simp add: sp writeSolverText_rewritten readSolverText_rewritten)
  with reread have "\<forall>buf. modifySolverSpec readSolverText writeSolverText lenetSolverText = Inr buf \<longrightarrow>
            readSolverText buf = Inr sp"
    by (rule mp)
  with one have "readSolverText rewrittenSolverText = Inr sp" by blast
  then have three: "readSolverText rewrittenSolverText = Inr ?m" by (simp only: sp)
  from one two three show ?thesis by (intro conjI)
qed

lemma otherLines_lenet:
  "otherLines lenetSolverText =
     [''# The train/test net protocol buffer definition'',
      ''# The learning rate policy'',
      ''lr_policy: '' @ singleQuoted ''inv'',
      []]"
  by code_simp

lemma otherLines_rewritten:
  "otherLines rewrittenSolverText = [''lr_policy: '' @ doubleQuoted ''inv'', []]"
  by code_simp

lemma modifySolverSpec_lenet:
  "modifySolverSpec readSolverText writeSolverText lenetSolverText = Inr rewrittenSolverText"
  by code_simp

text \<open>
  The text of the other fields is not kept. In the fragment, the solver configuration
  with two comments and \<open>lr_policy\<close> in single quotes is taken to a text without the
  comments and with \<open>lr_policy\<close> in double quotes: what the message does not hold, the
  printed text does not have.
\<close>

theorem modifySolverSpec_fields_counterexample:
  "modifySolverSpec readSolverText writeSolverText lenetSolverText = Inr rewrittenSolverText
   \<and> otherLines lenetSolverText =
       [''# The train/test net protocol buffer definition'',
        ''# The learning rate policy'',
        ''lr_policy: '' @ singleQuoted ''inv'',
        []]
   \<and> otherLines rewrittenSolverText = [''lr_policy: '' @ doubleQuoted ''inv'', []]
   \<and> otherLines rewrittenSolverText \<noteq> otherLines lenetSolverText"
  by (simp add: modifySolverSpec_lenet otherLines_lenet otherLines_rewritten)

section \<open>Downloading the specifications to the blob store\<close>

lemma getModifiedSolverNetSpec_SpecificationUrl [simp]:
  "getModifiedSolverNetSpec K E (s\<lparr>SpecificationUrl := u\<rparr>) = getModifiedSolverNetSpec K E s"
  by (simp add: getModifiedSolverNetSpec_def split: sum.splits)

lemma saveToCbfs_Inr:
  "saveToCbfs E cbfs destPath content = (Inr u, cbfs') \<longleftrightarrow>
     cbfsPut E cbfs [] destPath content ''text/plain'' = (Inr (), cbfs')"
  by (auto simp: saveToCbfs_def split: prod.splits sum.splits)

lemma Save_Inr:
  "Save E db s = (Inr s', db') \<longleftrightarrow>
     (\<exists>revision. dbEdit E db s = (Inr revision, db')) \<and> dbRetrieve E db' (Id s) = Inr s'"
  by (auto simp: Save_def split: prod.splits sum.splits)

lemma DownloadSpecToCbfs_Inr:
  assumes "DownloadSpecToCbfs K E s db cbfs = (Inr s', db', cbfs')"
  shows "\<exists>bytes cbfs1 bytes'.
      getModifiedSolverSpec E s = Inr bytes
    \<and> saveToCbfs E cbfs (Id s @ ''/solver.prototxt'') bytes = (Inr (), cbfs1)
    \<and> getModifiedSolverNetSpec K E s = Inr bytes'
    \<and> saveToCbfs E cbfs1 (Id s @ ''/solver-net.prototxt'') bytes' = (Inr (), cbfs')
    \<and> Save E db (s\<lparr>SpecificationUrl := CBFS_URI_PREFIX K @ (Id s @ ''/solver.prototxt''),
                     SpecificationNetUrl := CBFS_URI_PREFIX K @ (Id s @ ''/solver-net.prototxt'')\<rparr>) =
        (Inr s', db')"
  using assms
  by (simp add: DownloadSpecToCbfs_def Let_def split: sum.splits prod.splits)

text \<open>
  C6. When \<open>DownloadSpecToCbfs\<close> succeeds on a database that reads back what was written,
  the solver it returns has the id of the solver it was called on, its specification URL
  is \<open>CBFS_URI_PREFIX\<close> followed by \<open><id>/solver.prototxt\<close> and its specification-net URL is
  \<open>CBFS_URI_PREFIX\<close> followed by \<open><id>/solver-net.prototxt\<close>; both start with the prefix,
  \<open>SpecificationUrlPath\<close> and \<open>SpecificationNetUrlPath\<close> give the two paths back, and the two
  paths are the ones that were put into the blob store, in this order.
\<close>

theorem DownloadSpecToCbfs_references:
  assumes "retrievesEdited E"
    and "DownloadSpecToCbfs K E s db cbfs = (Inr s', db', cbfs')"
  shows "Id s' = Id s
    \<and> SpecificationUrl s' = cbfsUrl K (Id s' @ ''/solver.prototxt'')
    \<and> SpecificationNetUrl s' = cbfsUrl K (Id s' @ ''/solver-net.prototxt'')
    \<and> HasPrefix (SpecificationUrl s') (CBFS_URI_PREFIX K)
    \<and> HasPrefix (SpecificationNetUrl s') (CBFS_URI_PREFIX K)
    \<and> SpecificationUrlPath K s' = Inr (Id s' @ ''/solver.prototxt'')
    \<and> SpecificationNetUrlPath K s' = Inr (Id s' @ ''/solver-net.prototxt'')
    \<and> (\<exists>bytes cbfs1 bytes'.
          cbfsPut E cbfs [] (Id s' @ ''/solver.prototxt'') bytes ''text/plain'' = (Inr (), cbfs1)
        \<and> cbfsPut E cbfs1 [] (Id s' @ ''/solver-net.prototxt'') bytes' ''text/plain'' = (Inr (), cbfs'))"
proof -
  let ?s2 = "s\<lparr>SpecificationUrl := CBFS_URI_PREFIX K @ (Id s @ ''/solver.prototxt''),
               SpecificationNetUrl := CBFS_URI_PREFIX K @ (Id s @ ''/solver-net.prototxt'')\<rparr>"
  from DownloadSpecToCbfs_Inr [OF assms(2)] obtain bytes cbfs1 bytes' where
    put1: "saveToCbfs E cbfs (Id s @ ''/solver.prototxt'') bytes = (Inr (), cbfs1)"
    and put2: "saveToCbfs E cbfs1 (Id s @ ''/solver-net.prototxt'') bytes' = (Inr (), cbfs')"
    and save: "Save E db ?s2 = (Inr s', db')"
    by auto
  from save obtain revision where "dbEdit E db ?s2 = (Inr revision, db')"
    and "dbRetrieve E db' (Id ?s2) = Inr s'"
    by (auto simp: Save_Inr)
  with assms(1) have same: "Id s' = Id ?s2" "SpecificationUrl s' = SpecificationUrl ?s2"
    "SpecificationNetUrl s' = SpecificationNetUrl ?s2"
    unfolding retrievesEdited_def by blast+
  then have ident: "Id s' = Id s"
    and url: "SpecificationUrl s' = CBFS_URI_PREFIX K @ (Id s' @ ''/solver.prototxt'')"
    and neturl: "SpecificationNetUrl s' = CBFS_URI_PREFIX K @ (Id s' @ ''/solver-net.prototxt'')"
    by simp_all
  have pre: "HasPrefix (p @ q) p" for p q :: string
    by (simp add: HasPrefix_def)
  have path: "SpecificationUrlPath K s' = Inr (Id s' @ ''/solver.prototxt'')"
    unfolding SpecificationUrlPath_def Let_def url
    by (simp add: pre Replace1_prefix del: append.simps)
  have netpath: "SpecificationNetUrlPath K s' = Inr (Id s' @ ''/solver-net.prototxt'')"
    unfolding SpecificationNetUrlPath_def Let_def neturl
    by (simp add: pre Replace1_prefix del: append.simps)
  from put1 put2 ident have puts: "\<exists>bytes cbfs1 bytes'.
          cbfsPut E cbfs [] (Id s' @ ''/solver.prototxt'') bytes ''text/plain'' = (Inr (), cbfs1)
        \<and> cbfsPut E cbfs1 [] (Id s' @ ''/solver-net.prototxt'') bytes' ''text/plain'' = (Inr (), cbfs')"
    by (auto simp: saveToCbfs_Inr)
  from ident url neturl path netpath puts show ?thesis
    by (simp add: cbfsUrl_def pre del: append.simps)
qed

lemma exampleServices_retrievesEdited: "retrievesEdited (exampleServices refused)"
  by (simp add: retrievesEdited_def exampleServices_def)

lemma exampleServices_run:
  "DownloadSpecToCbfs exampleConstants (exampleServices refuseNothing) exampleSolver [] [] =
     (Inr (exampleSolver\<lparr>SpecificationUrl := ''cbfs://solver-1/solver.prototxt'',
                          SpecificationNetUrl := ''cbfs://solver-1/solver-net.prototxt''\<rparr>),
      [(''solver-1'', exampleSolver\<lparr>SpecificationUrl := ''cbfs://solver-1/solver.prototxt'',
                          SpecificationNetUrl := ''cbfs://solver-1/solver-net.prototxt''\<rparr>)],
      [(''solver-1/solver-net.prototxt'', ''training.txt,-;testing.txt,-;''),
       (''solver-1/solver.prototxt'', ''net: solver-net.prototxt snapshot_prefix: snapshot'')])"
  by (simp add: DownloadSpecToCbfs_def getModifiedSolverSpec_def getModifiedSolverNetSpec_def
        modifySolverSpec_def modifySolverNetSpec_def modifyLayer_def isTrainingPhase_def
        isTestingPhase_def setImageDataSource_def saveToCbfs_def Save_def
        exampleServices_def exampleSolver_def exampleConstants_def refuseNothing_def
        parsesTo_def printSolver_def printSources_def layerSources_def exampleNet_def
        exampleLayer_def includeRule_def Let_def)

theorem DownloadSpecToCbfs_references_witness:
  "\<exists>s' db' cbfs'.
     DownloadSpecToCbfs exampleConstants (exampleServices refuseNothing) exampleSolver [] [] =
       (Inr s', db', cbfs')
   \<and> Id s' = ''solver-1''
   \<and> SpecificationUrl s' = ''cbfs://solver-1/solver.prototxt''
   \<and> SpecificationNetUrl s' = ''cbfs://solver-1/solver-net.prototxt''
   \<and> SpecificationUrlPath exampleConstants s' = Inr ''solver-1/solver.prototxt''
   \<and> SpecificationNetUrlPath exampleConstants s' = Inr ''solver-1/solver-net.prototxt''"
proof -
  let ?s' = "exampleSolver\<lparr>SpecificationUrl := ''cbfs://solver-1/solver.prototxt'',
                          SpecificationNetUrl := ''cbfs://solver-1/solver-net.prototxt''\<rparr>"
  have ident: "Id ?s' = ''solver-1''" by (simp add: exampleSolver_def)
  from DownloadSpecToCbfs_references [OF exampleServices_retrievesEdited exampleServices_run]
  have "SpecificationUrl ?s' = cbfsUrl exampleConstants (Id ?s' @ ''/solver.prototxt'')"
    and "SpecificationNetUrl ?s' = cbfsUrl exampleConstants (Id ?s' @ ''/solver-net.prototxt'')"
    and "SpecificationUrlPath exampleConstants ?s' = Inr (Id ?s' @ ''/solver.prototxt'')"
    and "SpecificationNetUrlPath exampleConstants ?s' = Inr (Id ?s' @ ''/solver-net.prototxt'')"
    by blast+
  then have "SpecificationUrl ?s' = ''cbfs://solver-1/solver.prototxt''"
    and "SpecificationNetUrl ?s' = ''cbfs://solver-1/solver-net.prototxt''"
    and "SpecificationUrlPath exampleConstants ?s' = Inr ''solver-1/solver.prototxt''"
    and "SpecificationNetUrlPath exampleConstants ?s' = Inr ''solver-1/solver-net.prototxt''"
    unfolding ident by (simp_all add: cbfsUrl_def exampleConstants_def)
  with exampleServices_run ident show ?thesis by blast
qed

lemma getModifiedSolverSpec_errors:
  "(getUrlContent E (SpecificationUrl s) = Inl (Failed msg) \<longrightarrow>
      getModifiedSolverSpec E s =
        Inl (Failed (''Error getting data: '' @ SpecificationUrl s @ ''.  '' @ msg)))
   \<and> (getUrlContent E (SpecificationUrl s) = Inr content
        \<and> UnmarshalSolverText E content = Inl (Failed msg) \<longrightarrow>
      getModifiedSolverSpec E s = Inl (Failed (''Error modifying: '' @ content @ ''.  '' @ msg)))"
  by (simp add: getModifiedSolverSpec_def modifySolverSpec_def wrapError_def)

lemma getModifiedSolverNetSpec_errors:
  "(getUrlContent E (SpecificationNetUrl s) = Inl (Failed msg) \<longrightarrow>
      getModifiedSolverNetSpec K E s =
        Inl (Failed (''Error getting data: '' @ SpecificationNetUrl s @ ''.  '' @ msg)))
   \<and> (getUrlContent E (SpecificationNetUrl s) = Inr content
        \<and> UnmarshalNetText E content = Inl (Failed msg) \<longrightarrow>
      getModifiedSolverNetSpec K E s = Inl (Failed (''Error modifying: '' @ content @ ''.  '' @ msg)))
   \<and> (getUrlContent E (SpecificationNetUrl s) = Inr content
        \<and> modifySolverNetSpec K (UnmarshalNetText E) (MarshalNetText E) content = Inl (Panicked p) \<longrightarrow>
      getModifiedSolverNetSpec K E s = Inl (Panicked p))"
  by (simp add: getModifiedSolverNetSpec_def modifySolverNetSpec_def wrapError_def)

lemma saveToCbfs_errors:
  "cbfsPut E cbfs [] destPath content ''text/plain'' = (Inl (Failed msg), cbfs') \<longrightarrow>
     saveToCbfs E cbfs destPath content =
       (Inl (Failed (''Error writing '' @ destPath @ '' to cbfs: '' @ msg)), cbfs')"
  by (simp add: saveToCbfs_def wrapError_def)

text \<open>
  C7. \<open>DownloadSpecToCbfs\<close> stops at the first of its steps that fails: getting the
  rewritten solver specification, saving it to the blob store, getting the rewritten net
  specification, saving it. It returns the failure of that step and the database it was
  given, unchanged. A database that differs from the one given means that all four steps
  succeeded. The failure of a step is the error of the fetch, of the parser or of the blob
  store with the context of the step put in front.
\<close>

theorem DownloadSpecToCbfs_aborts:
  "(getModifiedSolverSpec E s = Inl err \<longrightarrow>
      DownloadSpecToCbfs K E s db cbfs = (Inl err, db, cbfs))
   \<and> (getModifiedSolverSpec E s = Inr bytes
        \<and> saveToCbfs E cbfs (Id s @ ''/solver.prototxt'') bytes = (Inl err, stored) \<longrightarrow>
      DownloadSpecToCbfs K E s db cbfs = (Inl err, db, stored))
   \<and> (getModifiedSolverSpec E s = Inr bytes
        \<and> saveToCbfs E cbfs (Id s @ ''/solver.prototxt'') bytes = (Inr (), stored)
        \<and> getModifiedSolverNetSpec K E s = Inl err \<longrightarrow>
      DownloadSpecToCbfs K E s db cbfs = (Inl err, db, stored))
   \<and> (getModifiedSolverSpec E s = Inr bytes
        \<and> saveToCbfs E cbfs (Id s @ ''/solver.prototxt'') bytes = (Inr (), stored)
        \<and> getModifiedSolverNetSpec K E s = Inr bytes'
        \<and> saveToCbfs E stored (Id s @ ''/solver-net.prototxt'') bytes' = (Inl err, stored') \<longrightarrow>
      DownloadSpecToCbfs K E s db cbfs = (Inl err, db, stored'))
   \<and> (fst (snd (DownloadSpecToCbfs K E s db cbfs)) \<noteq> db \<longrightarrow>
        (\<exists>bytes stored bytes' stored'.
            getModifiedSolverSpec E s = Inr bytes
          \<and> saveToCbfs E cbfs (Id s @ ''/solver.prototxt'') bytes = (Inr (), stored)
          \<and> getModifiedSolverNetSpec K E s = Inr bytes'
          \<and> saveToCbfs E stored (Id s @ ''/solver-net.prototxt'') bytes' = (Inr (), stored')))
   \<and> (getUrlContent E (SpecificationUrl s) = Inl (Failed msg) \<longrightarrow>
        getModifiedSolverSpec E s =
          Inl (Failed (''Error getting data: '' @ SpecificationUrl s @ ''.  '' @ msg)))
   \<and> (getUrlContent E (SpecificationUrl s) = Inr content
        \<and> UnmarshalSolverText E content = Inl (Failed msg) \<longrightarrow>
        getModifiedSolverSpec E s = Inl (Failed (''Error modifying: '' @ content @ ''.  '' @ msg)))
   \<and> (getUrlContent E (SpecificationNetUrl s) = Inl (Failed msg) \<longrightarrow>
        getModifiedSolverNetSpec K E s =
          Inl (Failed (''Error getting data: '' @ SpecificationNetUrl s @ ''.  '' @ msg)))
   \<and> (getUrlContent E (SpecificationNetUrl s) = Inr content
        \<and> UnmarshalNetText E content = Inl (Failed msg) \<longrightarrow>
        getModifiedSolverNetSpec K E s = Inl (Failed (''Error modifying: '' @ content @ ''.  '' @ msg)))
   \<and> (cbfsPut E cbfs [] destPath content ''text/plain'' = (Inl (Failed msg), cbfs') \<longrightarrow>
        saveToCbfs E cbfs destPath content =
          (Inl (Failed (''Error writing '' @ destPath @ '' to cbfs: '' @ msg)), cbfs'))"
proof -
  have a1: "getModifiedSolverSpec E s = Inl err \<longrightarrow>
      DownloadSpecToCbfs K E s db cbfs = (Inl err, db, cbfs)"
    by (simp add: DownloadSpecToCbfs_def)
  have a2: "getModifiedSolverSpec E s = Inr bytes
        \<and> saveToCbfs E cbfs (Id s @ ''/solver.prototxt'') bytes = (Inl err, stored) \<longrightarrow>
      DownloadSpecToCbfs K E s db cbfs = (Inl err, db, stored)"
    by (simp add: DownloadSpecToCbfs_def)
  have a3: "getModifiedSolverSpec E s = Inr bytes
        \<and> saveToCbfs E cbfs (Id s @ ''/solver.prototxt'') bytes = (Inr (), stored)
        \<and> getModifiedSolverNetSpec K E s = Inl err \<longrightarrow>
      DownloadSpecToCbfs K E s db cbfs = (Inl err, db, stored)"
    by (simp add: DownloadSpecToCbfs_def Let_def)
  have a4: "getModifiedSolverSpec E s = Inr bytes
        \<and> saveToCbfs E cbfs (Id s @ ''/solver.prototxt'') bytes = (Inr (), stored)
        \<and> getModifiedSolverNetSpec K E s = Inr bytes'
        \<and> saveToCbfs E stored (Id s @ ''/solver-net.prototxt'') bytes' = (Inl err, stored') \<longrightarrow>
      DownloadSpecToCbfs K E s db cbfs = (Inl err, db, stored')"
    by (simp add: DownloadSpecToCbfs_def Let_def)
  have a5: "fst (snd (DownloadSpecToCbfs K E s db cbfs)) \<noteq> db \<longrightarrow>
        (\<exists>bytes stored bytes' stored'.
            getModifiedSolverSpec E s = Inr bytes
          \<and> saveToCbfs E cbfs (Id s @ ''/solver.prototxt'') bytes = (Inr (), stored)
          \<and> getModifiedSolverNetSpec K E s = Inr bytes'
          \<and> saveToCbfs E stored (Id s @ ''/solver-net.prototxt'') bytes' = (Inr (), stored'))"
    by (simp add: DownloadSpecToCbfs_def Let_def split: sum.splits prod.splits)
  from a1 a2 a3 a4 a5 getModifiedSolverSpec_errors [of E s msg content]
    getModifiedSolverNetSpec_errors [of E s msg K content]
    saveToCbfs_errors [of E cbfs destPath content msg cbfs']
  show ?thesis by blast
qed


theorem DownloadSpecToCbfs_aborts_witness:
  "DownloadSpecToCbfs exampleConstants (exampleServices refuseNothing)
     (exampleSolver\<lparr>SpecificationUrl := ''http://example.com/none''\<rparr>) [] [] =
     (Inl (Failed ''Error getting data: http://example.com/none.  404 response''), [], [])
   \<and> DownloadSpecToCbfs exampleConstants
       ((exampleServices refuseNothing)\<lparr>UnmarshalSolverText := neverParses\<rparr>) exampleSolver [] [] =
     (Inl (Failed ''Error modifying: net: lenet.prototxt.  line 1.0: unknown field name''), [], [])
   \<and> DownloadSpecToCbfs exampleConstants
       (exampleServices (refusePath ''solver-1/solver.prototxt'')) exampleSolver [] [] =
     (Inl (Failed ''Error writing solver-1/solver.prototxt to cbfs: connection refused''), [], [])
   \<and> DownloadSpecToCbfs exampleConstants (exampleServices refuseNothing)
       (exampleSolver\<lparr>SpecificationNetUrl := ''http://example.com/none''\<rparr>) [] [] =
     (Inl (Failed ''Error getting data: http://example.com/none.  404 response''), [],
      [(''solver-1/solver.prototxt'', ''net: solver-net.prototxt snapshot_prefix: snapshot'')])
   \<and> DownloadSpecToCbfs exampleConstants
       ((exampleServices refuseNothing)\<lparr>UnmarshalNetText := neverParses\<rparr>) exampleSolver [] [] =
     (Inl (Failed ''Error modifying: layers { }.  line 1.0: unknown field name''), [],
      [(''solver-1/solver.prototxt'', ''net: solver-net.prototxt snapshot_prefix: snapshot'')])
   \<and> DownloadSpecToCbfs exampleConstants
       (exampleServices (refusePath ''solver-1/solver-net.prototxt'')) exampleSolver [] [] =
     (Inl (Failed ''Error writing solver-1/solver-net.prototxt to cbfs: connection refused''), [],
      [(''solver-1/solver.prototxt'', ''net: solver-net.prototxt snapshot_prefix: snapshot'')])
   \<and> fst (snd (DownloadSpecToCbfs exampleConstants (exampleServices refuseNothing)
                  exampleSolver [] [])) \<noteq> []
   \<and> (\<exists>bytes stored bytes' stored'.
         getModifiedSolverSpec (exampleServices refuseNothing) exampleSolver = Inr bytes
       \<and> saveToCbfs (exampleServices refuseNothing) [] (Id exampleSolver @ ''/solver.prototxt'')
           bytes = (Inr (), stored)
       \<and> getModifiedSolverNetSpec exampleConstants (exampleServices refuseNothing) exampleSolver =
           Inr bytes'
       \<and> saveToCbfs (exampleServices refuseNothing) stored
           (Id exampleSolver @ ''/solver-net.prototxt'') bytes' = (Inr (), stored'))"
proof -
  let ?solverBytes = "''net: solver-net.prototxt snapshot_prefix: snapshot''"
  let ?netBytes = "''training.txt,-;testing.txt,-;''"
  let ?stored = "[(''solver-1/solver.prototxt'', ?solverBytes)]"
  have solver: "getModifiedSolverSpec E exampleSolver = Inr ?solverBytes"
    if "getUrlContent E = getUrlContent (exampleServices refuseNothing)"
      and "UnmarshalSolverText E = UnmarshalSolverText (exampleServices refuseNothing)"
      and "MarshalSolverText E = printSolver"
    for E :: "(unit, (string \<times> Solver) list, (string \<times> string) list) services"
    using that
    by (simp add: getModifiedSolverSpec_def modifySolverSpec_def exampleServices_def
          exampleSolver_def parsesTo_def printSolver_def)
  have net: "getModifiedSolverNetSpec exampleConstants E exampleSolver = Inr ?netBytes"
    if "getUrlContent E = getUrlContent (exampleServices refuseNothing)"
      and "UnmarshalNetText E = UnmarshalNetText (exampleServices refuseNothing)"
      and "MarshalNetText E = printSources"
    for E :: "(unit, (string \<times> Solver) list, (string \<times> string) list) services"
    using that
    by (simp add: getModifiedSolverNetSpec_def modifySolverNetSpec_def modifyLayer_def
          isTrainingPhase_def isTestingPhase_def setImageDataSource_def exampleServices_def
          exampleSolver_def exampleConstants_def parsesTo_def printSources_def layerSources_def
          exampleNet_def exampleLayer_def includeRule_def)
  have put1: "saveToCbfs E [] (Id exampleSolver @ ''/solver.prototxt'') ?solverBytes =
      (Inr (), ?stored)"
    if "cbfsPut E = cbfsPut (exampleServices refused)" and "\<not> refused ''solver-1/solver.prototxt''"
    for E :: "(unit, (string \<times> Solver) list, (string \<times> string) list) services" and refused
    using that by (simp add: saveToCbfs_def exampleServices_def exampleSolver_def)

  (* the solver specification cannot be fetched *)
  let ?sA = "exampleSolver\<lparr>SpecificationUrl := ''http://example.com/none''\<rparr>"
  have "getUrlContent (exampleServices refuseNothing) (SpecificationUrl ?sA) =
      Inl (Failed ''404 response'')"
    by (simp add: exampleServices_def exampleSolver_def)
  with DownloadSpecToCbfs_aborts
         [where E = "exampleServices refuseNothing" and s = ?sA and msg = "''404 response''"
            and K = exampleConstants and db = "[]" and cbfs = "[]"
            and err = "Failed (''Error getting data: '' @ SpecificationUrl ?sA @ ''.  '' @ ''404 response'')"]
  have "DownloadSpecToCbfs exampleConstants (exampleServices refuseNothing) ?sA [] [] =
      (Inl (Failed (''Error getting data: '' @ SpecificationUrl ?sA @ ''.  '' @ ''404 response'')),
       [], [])"
    by blast
  then have A: "DownloadSpecToCbfs exampleConstants (exampleServices refuseNothing) ?sA [] [] =
      (Inl (Failed ''Error getting data: http://example.com/none.  404 response''), [], [])"
    by (simp add: exampleSolver_def)

  (* the solver specification does not parse *)
  let ?EP = "(exampleServices refuseNothing)\<lparr>UnmarshalSolverText := neverParses\<rparr>"
  have "getUrlContent ?EP (SpecificationUrl exampleSolver) = Inr ''net: lenet.prototxt''"
    and "UnmarshalSolverText ?EP ''net: lenet.prototxt'' =
           Inl (Failed ''line 1.0: unknown field name'')"
    by (simp_all add: exampleServices_def exampleSolver_def neverParses_def)
  with DownloadSpecToCbfs_aborts
         [where E = ?EP and s = exampleSolver and msg = "''line 1.0: unknown field name''"
            and content = "''net: lenet.prototxt''"
            and K = exampleConstants and db = "[]" and cbfs = "[]"
            and err = "Failed (''Error modifying: '' @ ''net: lenet.prototxt'' @ ''.  '' @
                               ''line 1.0: unknown field name'')"]
  have "DownloadSpecToCbfs exampleConstants ?EP exampleSolver [] [] =
      (Inl (Failed (''Error modifying: '' @ ''net: lenet.prototxt'' @ ''.  '' @
                    ''line 1.0: unknown field name'')), [], [])"
    by blast
  then have P: "DownloadSpecToCbfs exampleConstants ?EP exampleSolver [] [] =
      (Inl (Failed ''Error modifying: net: lenet.prototxt.  line 1.0: unknown field name''), [], [])"
    by simp

  (* the blob store refuses the solver specification *)
  let ?EC = "exampleServices (refusePath ''solver-1/solver.prototxt'')"
  have "getModifiedSolverSpec ?EC exampleSolver = Inr ?solverBytes"
    by (rule solver) (simp_all add: exampleServices_def)
  moreover have "cbfsPut ?EC [] [] (Id exampleSolver @ ''/solver.prototxt'') ?solverBytes ''text/plain'' =
      (Inl (Failed ''connection refused''), [])"
    by (simp add: exampleServices_def exampleSolver_def refusePath_def)
  ultimately have "DownloadSpecToCbfs exampleConstants ?EC exampleSolver [] [] =
      (Inl (Failed (''Error writing '' @ (Id exampleSolver @ ''/solver.prototxt'') @ '' to cbfs: '' @
                    ''connection refused'')), [], [])"
    using DownloadSpecToCbfs_aborts
         [where E = ?EC and s = exampleSolver and msg = "''connection refused''"
            and K = exampleConstants and db = "[]" and cbfs = "[]" and cbfs' = "[]"
            and bytes = ?solverBytes and stored = "[]"
            and destPath = "Id exampleSolver @ ''/solver.prototxt''" and content = ?solverBytes
            and err = "Failed (''Error writing '' @ (Id exampleSolver @ ''/solver.prototxt'') @
                               '' to cbfs: '' @ ''connection refused'')"]
    by blast
  then have C: "DownloadSpecToCbfs exampleConstants ?EC exampleSolver [] [] =
      (Inl (Failed ''Error writing solver-1/solver.prototxt to cbfs: connection refused''), [], [])"
    by (simp add: exampleSolver_def)

  (* the net specification cannot be fetched *)
  let ?sD = "exampleSolver\<lparr>SpecificationNetUrl := ''http://example.com/none''\<rparr>"
  have "getModifiedSolverSpec (exampleServices refuseNothing) ?sD = Inr ?solverBytes"
    by (simp add: getModifiedSolverSpec_def modifySolverSpec_def exampleServices_def
          exampleSolver_def parsesTo_def printSolver_def)
  moreover have "saveToCbfs (exampleServices refuseNothing) [] (Id ?sD @ ''/solver.prototxt'')
        ?solverBytes = (Inr (), ?stored)"
    by (simp add: saveToCbfs_def exampleServices_def exampleSolver_def refuseNothing_def)
  moreover have "getUrlContent (exampleServices refuseNothing) (SpecificationNetUrl ?sD) =
      Inl (Failed ''404 response'')"
    by (simp add: exampleServices_def exampleSolver_def)
  ultimately have "DownloadSpecToCbfs exampleConstants (exampleServices refuseNothing) ?sD [] [] =
      (Inl (Failed (''Error getting data: '' @ SpecificationNetUrl ?sD @ ''.  '' @ ''404 response'')),
       [], ?stored)"
    using DownloadSpecToCbfs_aborts
         [where E = "exampleServices refuseNothing" and s = ?sD and msg = "''404 response''"
            and K = exampleConstants and db = "[]" and cbfs = "[]"
            and bytes = ?solverBytes and stored = ?stored
            and err = "Failed (''Error getting data: '' @ SpecificationNetUrl ?sD @ ''.  '' @
                               ''404 response'')"]
    by blast
  then have D: "DownloadSpecToCbfs exampleConstants (exampleServices refuseNothing) ?sD [] [] =
      (Inl (Failed ''Error getting data: http://example.com/none.  404 response''), [], ?stored)"
    by (simp add: exampleSolver_def)

  (* the net specification does not parse *)
  let ?EQ = "(exampleServices refuseNothing)\<lparr>UnmarshalNetText := neverParses\<rparr>"
  have "getModifiedSolverSpec ?EQ exampleSolver = Inr ?solverBytes"
    by (rule solver) (simp_all add: exampleServices_def)
  moreover have "saveToCbfs ?EQ [] (Id exampleSolver @ ''/solver.prototxt'') ?solverBytes =
      (Inr (), ?stored)"
    by (rule put1 [of _ refuseNothing]) (simp_all add: refuseNothing_def)
  moreover have "getUrlContent ?EQ (SpecificationNetUrl exampleSolver) = Inr ''layers { }''"
    and "UnmarshalNetText ?EQ ''layers { }'' = Inl (Failed ''line 1.0: unknown field name'')"
    by (simp_all add: exampleServices_def exampleSolver_def neverParses_def)
  ultimately have "DownloadSpecToCbfs exampleConstants ?EQ exampleSolver [] [] =
      (Inl (Failed (''Error modifying: '' @ ''layers { }'' @ ''.  '' @
                    ''line 1.0: unknown field name'')), [], ?stored)"
    using DownloadSpecToCbfs_aborts
         [where E = ?EQ and s = exampleSolver and msg = "''line 1.0: unknown field name''"
            and content = "''layers { }''"
            and K = exampleConstants and db = "[]" and cbfs = "[]"
            and bytes = ?solverBytes and stored = ?stored
            and err = "Failed (''Error modifying: '' @ ''layers { }'' @ ''.  '' @
                               ''line 1.0: unknown field name'')"]
    by blast
  then have Q: "DownloadSpecToCbfs exampleConstants ?EQ exampleSolver [] [] =
      (Inl (Failed ''Error modifying: layers { }.  line 1.0: unknown field name''), [], ?stored)"
    by simp

  (* the blob store refuses the net specification *)
  let ?EB = "exampleServices (refusePath ''solver-1/solver-net.prototxt'')"
  have "getModifiedSolverSpec ?EB exampleSolver = Inr ?solverBytes"
    by (rule solver) (simp_all add: exampleServices_def)
  moreover have "saveToCbfs ?EB [] (Id exampleSolver @ ''/solver.prototxt'') ?solverBytes =
      (Inr (), ?stored)"
    by (rule put1 [of _ "refusePath ''solver-1/solver-net.prototxt''"])
       (simp_all add: refusePath_def)
  moreover have "getModifiedSolverNetSpec exampleConstants ?EB exampleSolver = Inr ?netBytes"
    by (rule net) (simp_all add: exampleServices_def)
  moreover have "saveToCbfs ?EB ?stored (Id exampleSolver @ ''/solver-net.prototxt'') ?netBytes =
      (Inl (Failed ''Error writing solver-1/solver-net.prototxt to cbfs: connection refused''),
       ?stored)"
    by (simp add: saveToCbfs_def wrapError_def exampleServices_def exampleSolver_def
          refusePath_def)
  ultimately have B: "DownloadSpecToCbfs exampleConstants ?EB exampleSolver [] [] =
     (Inl (Failed ''Error writing solver-1/solver-net.prototxt to cbfs: connection refused''), [],
      ?stored)"
    using DownloadSpecToCbfs_aborts
         [where E = ?EB and s = exampleSolver and K = exampleConstants and db = "[]"
            and cbfs = "[]" and bytes = ?solverBytes and stored = ?stored
            and bytes' = ?netBytes and stored' = ?stored
            and err = "Failed ''Error writing solver-1/solver-net.prototxt to cbfs: connection refused''"]
    by blast

  (* every step succeeds and the database is written *)
  have changed: "fst (snd (DownloadSpecToCbfs exampleConstants (exampleServices refuseNothing)
                  exampleSolver [] [])) \<noteq> []"
    by (simp add: exampleServices_run)
  with DownloadSpecToCbfs_aborts
         [where E = "exampleServices refuseNothing" and s = exampleSolver
            and K = exampleConstants and db = "[]" and cbfs = "[]"]
  have S: "\<exists>bytes stored bytes' stored'.
         getModifiedSolverSpec (exampleServices refuseNothing) exampleSolver = Inr bytes
       \<and> saveToCbfs (exampleServices refuseNothing) [] (Id exampleSolver @ ''/solver.prototxt'')
           bytes = (Inr (), stored)
       \<and> getModifiedSolverNetSpec exampleConstants (exampleServices refuseNothing) exampleSolver =
           Inr bytes'
       \<and> saveToCbfs (exampleServices refuseNothing) stored
           (Id exampleSolver @ ''/solver-net.prototxt'') bytes' = (Inr (), stored')"
    by blast

  from A P C D Q B changed S show ?thesis by blast
qed

section \<open>Saving the training and test data\<close>

lemma addLabelsToToc_lines:
  "fst (addLabelsToToc toc) = map tocLine (fst (specWalk 0 [] 0 [] toc))"
  unfolding addLabelsToToc_def by (simp add: addLabelsLoop_specWalk [of 0 "[]"])

lemma addParentDirToToc_labels:
  "\<exists>tocWithSubdir. addParentDirToToc (fst (addLabelsToToc toc)) dir = Inr tocWithSubdir"
  by (simp add: addParentDirToToc_def addParentDirLoop_result addLabelsToToc_lines
        tocLine_has_space)

lemma processArtifact_Inr:
  assumes "processArtifact K E config destDirectory trainingArtifact trainingLabelIndex fs
             artificactPath = (Inr result, fs')"
  shows "\<exists>cbfs reader f created toc extracted tocWithSubdir written.
       cbfsclientNew E (CbfsUrl config) = Inr cbfs
     \<and> cbfsGet E cbfs artificactPath = Inr reader
     \<and> osCreate E fs (Join [destDirectory, snd (pathSplit artificactPath)]) = (Inr f, created)
     \<and> untarGzWithToc E created reader f
          (Join [destDirectory, if artificactPath = trainingArtifact
                                then TRAINING_DIR K else TESTING_DIR K]) =
         ((toc, None), extracted)
     \<and> addParentDirToToc (fst (addLabelsToToc toc))
          (if artificactPath = trainingArtifact then TRAINING_DIR K else TESTING_DIR K) =
         Inr tocWithSubdir
     \<and> writeTocToFile E extracted tocWithSubdir
          (Join [destDirectory, if artificactPath = trainingArtifact
                                then TRAINING_INDEX K else TESTING_INDEX K]) =
         (written, fs')
     \<and> result = (if artificactPath = trainingArtifact then snd (addLabelsToToc toc)
                  else trainingLabelIndex)"
  using assms
  by (auto simp: processArtifact_def Let_def
           split: sum.splits prod.splits option.splits if_splits)

text \<open>
  C8. When the two artifact paths differ and \<open>SaveTrainTestData\<close> succeeds, it has
  processed the training artifact first, on the file system it was given (stream, raw
  copy file, extraction into \<open>TRAINING_DIR\<close>, index file \<open>TRAINING_INDEX\<close>), and the testing
  artifact second, on the file system that the first round left (extraction into
  \<open>TESTING_DIR\<close>, index file \<open>TESTING_INDEX\<close>); the labels it returns are the label index
  of the table of contents of the training artifact, whatever the table of contents of
  the testing artifact is.
\<close>

theorem SaveTrainTestData_training_vocabulary:
  assumes "TrainingArtifactPath E config (DatasetId s) \<noteq> TestingArtifactPath E config (DatasetId s)"
    and "SaveTrainTestData K E s config destDirectory fs = (Inr labels, fs')"
  shows "\<exists>cbfs reader f created toc extracted tocWithSubdir written indexed
            cbfs' reader' f' created' toc' extracted' tocWithSubdir' written'.
       cbfsclientNew E (CbfsUrl config) = Inr cbfs
     \<and> cbfsGet E cbfs (TrainingArtifactPath E config (DatasetId s)) = Inr reader
     \<and> osCreate E fs
          (Join [destDirectory, snd (pathSplit (TrainingArtifactPath E config (DatasetId s)))]) =
         (Inr f, created)
     \<and> untarGzWithToc E created reader f (Join [destDirectory, TRAINING_DIR K]) =
         ((toc, None), extracted)
     \<and> addParentDirToToc (fst (addLabelsToToc toc)) (TRAINING_DIR K) = Inr tocWithSubdir
     \<and> writeTocToFile E extracted tocWithSubdir (Join [destDirectory, TRAINING_INDEX K]) =
         (written, indexed)
     \<and> cbfsclientNew E (CbfsUrl config) = Inr cbfs'
     \<and> cbfsGet E cbfs' (TestingArtifactPath E config (DatasetId s)) = Inr reader'
     \<and> osCreate E indexed
          (Join [destDirectory, snd (pathSplit (TestingArtifactPath E config (DatasetId s)))]) =
         (Inr f', created')
     \<and> untarGzWithToc E created' reader' f' (Join [destDirectory, TESTING_DIR K]) =
         ((toc', None), extracted')
     \<and> addParentDirToToc (fst (addLabelsToToc toc')) (TESTING_DIR K) = Inr tocWithSubdir'
     \<and> writeTocToFile E extracted' tocWithSubdir' (Join [destDirectory, TESTING_INDEX K]) =
         (written', fs')
     \<and> labels = snd (addLabelsToToc toc)"
proof -
  let ?train = "TrainingArtifactPath E config (DatasetId s)"
  let ?test = "TestingArtifactPath E config (DatasetId s)"
  from assms(2) obtain labels1 indexed where
    first: "processArtifact K E config destDirectory ?train [] fs ?train = (Inr labels1, indexed)"
    and second: "processArtifact K E config destDirectory ?train labels1 indexed ?test =
                   (Inr labels, fs')"
    by (auto simp: SaveTrainTestData_def Let_def split: sum.splits prod.splits)
  from processArtifact_Inr [OF first]
  obtain cbfs reader f created toc extracted tocWithSubdir written where
    t: "cbfsclientNew E (CbfsUrl config) = Inr cbfs"
       "cbfsGet E cbfs ?train = Inr reader"
       "osCreate E fs (Join [destDirectory, snd (pathSplit ?train)]) = (Inr f, created)"
       "untarGzWithToc E created reader f (Join [destDirectory, TRAINING_DIR K]) =
          ((toc, None), extracted)"
       "addParentDirToToc (fst (addLabelsToToc toc)) (TRAINING_DIR K) = Inr tocWithSubdir"
       "writeTocToFile E extracted tocWithSubdir (Join [destDirectory, TRAINING_INDEX K]) =
          (written, indexed)"
       "labels1 = snd (addLabelsToToc toc)"
    by auto
  from processArtifact_Inr [OF second] assms(1)
  obtain cbfs' reader' f' created' toc' extracted' tocWithSubdir' written' where
    u: "cbfsclientNew E (CbfsUrl config) = Inr cbfs'"
       "cbfsGet E cbfs' ?test = Inr reader'"
       "osCreate E indexed (Join [destDirectory, snd (pathSplit ?test)]) = (Inr f', created')"
       "untarGzWithToc E created' reader' f' (Join [destDirectory, TESTING_DIR K]) =
          ((toc', None), extracted')"
       "addParentDirToToc (fst (addLabelsToToc toc')) (TESTING_DIR K) = Inr tocWithSubdir'"
       "writeTocToFile E extracted' tocWithSubdir' (Join [destDirectory, TESTING_INDEX K]) =
          (written', fs')"
       "labels = labels1"
    by auto
  from t u show ?thesis by blast
qed

lemma exampleDataServices_run:
  "fst (SaveTrainTestData exampleConstants (exampleDataServices refuseNothing) exampleSolver
          NewDefaultConfiguration ''/tmp/elastic-thought'' []) = Inr [''A'', ''B'']"
  by code_simp

theorem SaveTrainTestData_training_vocabulary_witness:
  "fst (SaveTrainTestData exampleConstants (exampleDataServices refuseNothing) exampleSolver
          NewDefaultConfiguration ''/tmp/elastic-thought'' []) =
     Inr (snd (addLabelsToToc [''A/x.png'', ''A/y.png'', ''B/z.png'']))
   \<and> snd (addLabelsToToc [''A/x.png'', ''A/y.png'', ''B/z.png'']) = [''A'', ''B'']
   \<and> snd (addLabelsToToc [''B/u.png'', ''C/v.png'']) = [''B'', ''C'']"
proof -
  let ?E = "exampleDataServices refuseNothing"
  obtain fs' where run: "SaveTrainTestData exampleConstants ?E exampleSolver
      NewDefaultConfiguration ''/tmp/elastic-thought'' [] = (Inr [''A'', ''B''], fs')"
    using exampleDataServices_run by (metis prod.collapse)
  have paths: "TrainingArtifactPath ?E NewDefaultConfiguration (DatasetId exampleSolver) \<noteq>
               TestingArtifactPath ?E NewDefaultConfiguration (DatasetId exampleSolver)"
    by (simp add: exampleDataServices_def)
  from SaveTrainTestData_training_vocabulary [OF paths run]
  obtain cbfs reader f created toc extracted where
    get: "cbfsGet ?E cbfs (TrainingArtifactPath ?E NewDefaultConfiguration (DatasetId exampleSolver)) =
            Inr reader"
    and untar: "untarGzWithToc ?E created reader f
                  (Join [''/tmp/elastic-thought'', TRAINING_DIR exampleConstants]) =
                ((toc, None), extracted)"
    and labels: "[''A'', ''B''] = snd (addLabelsToToc toc)"
    by auto
  from get have "reader = [''A/x.png'', ''A/y.png'', ''B/z.png'']"
    by (simp add: exampleDataServices_def exampleSolver_def)
  moreover from untar have "toc = reader"
    by (simp add: exampleDataServices_def)
  ultimately have "snd (addLabelsToToc [''A/x.png'', ''A/y.png'', ''B/z.png'']) = [''A'', ''B'']"
    using labels by simp
  moreover have "snd (addLabelsToToc [''B/u.png'', ''C/v.png'']) = [''B'', ''C'']"
    by code_simp
  ultimately show ?thesis using exampleDataServices_run by simp
qed

text \<open>
  C9. \<open>SaveTrainTestData\<close> does not read what \<open>writeTocToFile\<close> returns. Where the
  index file of the training data cannot be created, \<open>writeTocToFile\<close> returns the error
  and \<open>SaveTrainTestData\<close> returns the labels without an error.
\<close>

theorem SaveTrainTestData_drops_manifest_error:
  "fst (writeTocToFile (exampleDataServices (refusePath ''/tmp/elastic-thought/training.txt'')) []
          [''training-data/A/x.png 0'', ''training-data/A/y.png 0'', ''training-data/B/z.png 1'']
          ''/tmp/elastic-thought/training.txt'') =
     Inl (Failed ''permission denied'')
   \<and> fst (SaveTrainTestData exampleConstants
            (exampleDataServices (refusePath ''/tmp/elastic-thought/training.txt'')) exampleSolver
            NewDefaultConfiguration ''/tmp/elastic-thought'' []) =
     Inr [''A'', ''B'']"
  by code_simp

text \<open>
  On the example file system, where no write fails, \<open>writeTocToFile\<close> leaves a new file
  with the entries in their order, each followed by a newline.
\<close>

lemma appendTo_created:
  "file \<notin> fst ` set files \<Longrightarrow> appendTo file text ((file, c) # files) = (file, c @ text) # files"
  by (induction files) (auto simp: appendTo_def)

lemma writeLoop_lines:
  "file \<notin> fst ` set files \<Longrightarrow>
   writeLoop (exampleDataServices denied) ((file, c) # files) file toc =
     (Inr (), (file, c @ concat (map (\<lambda>tocEntry. tocEntry @ [CHR 0x0A]) toc)) # files)"
  by (induction toc arbitrary: c) (simp_all add: exampleDataServices_def appendTo_created)

lemma writeTocToFile_lines:
  assumes "\<not> denied destFile" and "destFile \<notin> fst ` set files"
  shows "writeTocToFile (exampleDataServices denied) files toc destFile =
     (Inr (), (destFile, concat (map (\<lambda>tocEntry. tocEntry @ [CHR 0x0A]) toc)) # files)"
proof -
  have "osCreate (exampleDataServices denied) files destFile = (Inr destFile, (destFile, []) # files)"
    using assms(1) by (simp add: exampleDataServices_def)
  moreover have "Flush (exampleDataServices denied) fs f = fs" for fs f
    by (simp add: exampleDataServices_def)
  ultimately show ?thesis
    using writeLoop_lines [OF assms(2), of denied "[]" toc]
    by (simp add: writeTocToFile_def)
qed

end
